theory Spec2Isabelle
  imports Complex_Main "HOL-Library.Word" "HOL-Library.AList"
begin

section \<open>Shared data model\<close>

text \<open>
  The two drivers under verification are
  \<^verbatim>\<open>src/software/pipeline/main_LdrToHdrSampling.cpp\<close> and
  \<^verbatim>\<open>src/software/pipeline/main_meshing.cpp\<close>. Both are orchestration code: they
  validate their options, load a scene and call into libraries whose sources are not
  part of the repository snapshot. Those library calls are taken as parameters (fields
  of an environment record); everything the drivers themselves decide is modelled here.
  The model starts after the command line has been parsed into a configuration record.

  What a run does to the outside world is recorded as a trace of events, in program
  order; the result of a run is either a returned exit status or the exception that
  left \<^verbatim>\<open>aliceVision_main\<close>. Log messages are kept word for word, but for the
  elapsed time that the last message of the meshing driver prints; the echo of the
  command line and debug output are left out.
\<close>

type_synonym IndexT = nat
type_synonym byte = "8 word"
type_synonym Point3d = "real \<times> real \<times> real"
type_synonym Vec2 = "real \<times> real"
type_synonym rgb = "nat \<times> nat \<times> nat"

datatype exit_status = EXIT_SUCCESS | EXIT_FAILURE

text \<open>
  Exceptions thrown by the drivers carry their message. \<open>Out_of_range\<close> is what
  \<^verbatim>\<open>std::map::at\<close> throws on a missing key; \<open>Filesystem_error\<close> is what the
  throwing \<^verbatim>\<open>boost::filesystem\<close> calls raise; \<open>Undefined_behaviour\<close> marks the
  places where the C++ has no defined result (unchecked indexing past the end,
  dereferencing \<^verbatim>\<open>end()\<close> or a null pointer).
\<close>

datatype error =
    Invalid_argument string
  | Logic_error string
  | Runtime_error string
  | Out_of_range
  | Filesystem_error
  | Undefined_behaviour

record View =
  viewId :: IndexT
  intrinsicId :: IndexT
  poseId :: IndexT
  imagePath :: string
  cameraExposureSetting :: real

text \<open>
  An observation is built as \<^verbatim>\<open>Observation(x, UndefinedIndexT, unknownScale)\<close>; the
  feature id \<open>None\<close> stands for \<^verbatim>\<open>UndefinedIndexT\<close>.
\<close>

record Observation =
  obs_x :: Vec2
  id_feat :: "IndexT option"
  scale :: real

datatype EImageDescriberType = UNKNOWN

text \<open>
  \<^verbatim>\<open>landmark.observations\<close> is a map from view id to observation; it is kept as an
  association list with at most one entry per key (\<^const>\<open>AList.update\<close> overwrites).
\<close>

record Landmark =
  position :: Point3d
  descType :: EImageDescriberType
  observations :: "(IndexT \<times> Observation) list"
  rgb :: rgb

record ('i, 'p) SfMData =
  views :: "IndexT \<rightharpoonup> View"
  intrinsics :: "(IndexT \<times> 'i) list"
  poses :: "IndexT \<rightharpoonup> 'p"
  landmarks :: "(IndexT \<times> Landmark) list"

record Mesh =
  pts :: "Point3d list"
  tris :: "(nat \<times> nat \<times> nat) list"
  colors :: "rgb list"

datatype event =
    Log_info string
  | Log_warning string
  | Log_error string
  | Load_SfMData string
  | Write_file string "byte list"
  | Create_directory string
  | Divide_space_from_depth_maps
  | Divide_space_from_SfM
  | Find_cams_which_intersects_hexahedron
  | Create_dense_point_cloud
  | Create_graph_cut
  | Mesh_post_processing
  | Save_SfMData string "(IndexT \<times> Landmark) list"
  | Save_obj string Mesh

type_synonym outcome = "event list \<times> (error + exit_status)"

record ('i, 'p) sfm_io =
  Load :: "string \<Rightarrow> ('i, 'p) SfMData option"

subsection \<open>Strings and paths\<close>

definition digit_char :: "nat \<Rightarrow> char" where
  "digit_char d = ''0123456789'' ! d"

function to_string :: "nat \<Rightarrow> string" where
  "to_string n = (if n < 10 then [digit_char n] else to_string (n div 10) @ [digit_char (n mod 10)])"
  by pat_completeness auto
termination
  by (relation "measure (\<lambda>n. n)") auto

declare to_string.simps [simp del]

definition quoted :: "string \<Rightarrow> string" where
  "quoted s = [CHR 0x27] @ s @ [CHR 0x27]"

text \<open>The message of lines 123 (sampling) and 287 (meshing).\<close>

definition cannot_be_read_msg :: "string \<Rightarrow> string" where
  "cannot_be_read_msg file = ''The input SfMData file '' @ quoted file @ '' cannot be read.''"

text \<open>\<^verbatim>\<open>fs::path(a) / b\<close>: a separator is put between two non-empty parts unless
  the left one already ends in one.\<close>

definition path_append :: "string \<Rightarrow> string \<Rightarrow> string" where
  "path_append a b =
     (if a = [] \<or> b = [] \<or> last a = CHR ''/'' then a @ b else a @ ''/'' @ b)"

subsection \<open>Machine integers\<close>

text \<open>
  \<^verbatim>\<open>int\<close> is 32 bits, \<^verbatim>\<open>std::size_t\<close> 64 bits. Values are kept as mathematical
  integers and every conversion writes its wrap-around out: \<open>int32\<close> reduces to the
  signed 32-bit range (the result of a narrowing conversion, and of an overflowing
  \<^verbatim>\<open>int\<close> addition on two's complement hardware), \<open>size_t\<close> reduces modulo
  \<open>2^64\<close> (the conversion of a signed value to \<^verbatim>\<open>std::size_t\<close>).
\<close>

definition int32 :: "int \<Rightarrow> int" where
  "int32 x = (x + 2147483648) mod 4294967296 - 2147483648"

definition size_t :: "int \<Rightarrow> nat" where
  "size_t x = nat (x mod 18446744073709551616)"

section \<open>The sampling driver (main_LdrToHdrSampling.cpp)\<close>

record sampling_params =
  blockSize :: int
  radius :: int
  maxCountSample :: nat

record sampling_cfg =
  sfmInputDataFilename :: string
  outputFolder :: string
  nbBrackets :: int
  channelQuantizationPower :: int
  byPass :: bool
  params :: sampling_params
  rangeStart :: int
  rangeSize :: int

text \<open>
  Library calls of the sampling driver. \<open>estimateBracketsFromSfmData\<close> returns
  \<open>None\<close> for \<^verbatim>\<open>false\<close> and the groups otherwise; \<open>extractSamplesFromImages\<close>
  returns its boolean result and the content of \<^verbatim>\<open>out_samples\<close> after the call;
  \<open>is_open\<close> tells whether the output stream for a path could be opened;
  \<open>write_sample\<close> is \<^verbatim>\<open>operator<<\<close> for one \<^verbatim>\<open>hdr::ImageSample\<close>.
\<close>

record ('i, 'p, 's) sampling_env = "('i, 'p) sfm_io" +
  intrinsic_w :: "'i \<Rightarrow> nat"
  intrinsic_h :: "'i \<Rightarrow> nat"
  estimateBracketsFromSfmData :: "('i, 'p) SfMData \<Rightarrow> int \<Rightarrow> View list list option"
  extractSamplesFromImages ::
    "string list \<Rightarrow> real list \<Rightarrow> nat \<Rightarrow> nat \<Rightarrow> nat \<Rightarrow> sampling_params \<Rightarrow> bool \<times> 's list"
  is_open :: "string \<Rightarrow> bool"
  write_sample :: "'s \<Rightarrow> byte list"

subsection \<open>The samples file\<close>

text \<open>
  \<^verbatim>\<open>fileSamples.write((const char *)&size, sizeof(size))\<close> writes the eight bytes of
  the count, least significant first on the little-endian targets of the program; then
  every sample is written through \<^verbatim>\<open>operator<<\<close>.
\<close>

fun le_bytes :: "nat \<Rightarrow> nat \<Rightarrow> byte list" where
  "le_bytes 0 v = []"
| "le_bytes (Suc k) v = of_nat (v mod 256) # le_bytes k (v div 256)"

definition write_size_t :: "nat \<Rightarrow> byte list" where
  "write_size_t n = le_bytes 8 (size_t (int n))"

definition samples_bytes :: "('s \<Rightarrow> byte list) \<Rightarrow> 's list \<Rightarrow> byte list" where
  "samples_bytes enc out_samples = write_size_t (length out_samples) @ concat (map enc out_samples)"

subsection \<open>The loop over the groups of the range\<close>

definition samples_filepath :: "string \<Rightarrow> nat \<Rightarrow> string" where
  "samples_filepath folder groupIdx = path_append folder (to_string groupIdx @ ''_samples.dat'')"

definition extracting_msg :: "nat \<Rightarrow> string" where
  "extracting_msg groupIdx = ''Extracting samples from group '' @ to_string groupIdx"

definition extract_error_msg :: "nat \<Rightarrow> string" where
  "extract_error_msg groupIdx = ''Error while extracting samples from group '' @ to_string groupIdx"

text \<open>
  One iteration of the loop (lines 193 to 227). The second component is \<open>Some r\<close>
  when the iteration leaves \<^verbatim>\<open>aliceVision_main\<close> with \<open>r\<close>, and \<open>None\<close> when
  the loop goes on. \<^verbatim>\<open>groupedViews[groupIdx]\<close> is unchecked.
\<close>

definition process_group ::
  "('i, 'p, 's) sampling_env \<Rightarrow> sampling_cfg \<Rightarrow> View list list \<Rightarrow> nat \<Rightarrow> nat \<Rightarrow> nat \<Rightarrow> nat
     \<Rightarrow> event list \<times> (error + exit_status) option" where
  "process_group env cfg groupedViews width height channelQuantization groupIdx =
     (if length groupedViews \<le> groupIdx then ([], Some (Inl Undefined_behaviour))
      else
        let group = groupedViews ! groupIdx;
            paths = map imagePath group;
            exposures = map cameraExposureSetting group;
            extracted = extractSamplesFromImages env paths exposures width height
                          channelQuantization (params cfg);
            res = fst extracted;
            out_samples = snd extracted;
            logs = Log_info (extracting_msg groupIdx) #
                     (if \<not> res then [Log_error (extract_error_msg groupIdx)] else []);
            samplesFilepath = samples_filepath (outputFolder cfg) groupIdx
        in if \<not> is_open env samplesFilepath
           then (logs @ [Log_error ''Impossible to write samples''], Some (Inr EXIT_FAILURE))
           else (logs @ [Write_file samplesFilepath (samples_bytes (write_sample env) out_samples)],
                 None))"

function process_groups ::
  "('i, 'p, 's) sampling_env \<Rightarrow> sampling_cfg \<Rightarrow> View list list \<Rightarrow> nat \<Rightarrow> nat \<Rightarrow> nat \<Rightarrow> nat \<Rightarrow> nat
     \<Rightarrow> outcome" where
  "process_groups env cfg groupedViews width height channelQuantization groupIdx bound =
     (if groupIdx < bound then
        (case process_group env cfg groupedViews width height channelQuantization groupIdx of
           (tr, Some r) \<Rightarrow> (tr, r)
         | (tr, None) \<Rightarrow>
             apfst ((@) tr)
               (process_groups env cfg groupedViews width height channelQuantization
                  (Suc groupIdx) bound))
      else ([], Inr EXIT_SUCCESS))"
  by pat_completeness auto
termination
  by (relation "measure (\<lambda>(env, cfg, groupedViews, width, height, cq, groupIdx, bound). bound - groupIdx)")
     auto

declare process_groups.simps [simp del]

subsection \<open>The range to compute\<close>

text \<open>
  Lines 169 to 188. The result is \<open>None\<close> when the range is rejected, and the pair
  \<open>(rangeStart, rangeSize)\<close> after the adjustment otherwise. The comparisons with
  \<^verbatim>\<open>groupedViews.size()\<close> are made in \<^verbatim>\<open>std::size_t\<close>; the sum
  \<^verbatim>\<open>rangeStart + rangeSize\<close> is an \<^verbatim>\<open>int\<close> addition.
\<close>

definition define_range :: "int \<Rightarrow> int \<Rightarrow> nat \<Rightarrow> (int \<times> int) option" where
  "define_range start sz n =
     (if start \<noteq> - 1 then
        (if start < 0 \<or> sz < 0 \<or> n < size_t start then None
         else if n < size_t (int32 (start + sz))
              then Some (start, int32 (int (size_t (int n - int (size_t start)))))
              else Some (start, sz))
      else Some (0, int32 (int n)))"

text \<open>
  Line 117: \<^verbatim>\<open>std::pow(2, channelQuantizationPower)\<close> converted to \<^verbatim>\<open>std::size_t\<close>;
  a negative power gives a fraction, which the conversion truncates to zero. The value
  is only handed to the sample extraction.
\<close>

definition channel_quantization :: "int \<Rightarrow> nat" where
  "channel_quantization p = (if p < 0 then 0 else 2 ^ nat p)"

definition brackets_msg :: "nat \<Rightarrow> nat \<Rightarrow> string" where
  "brackets_msg usedNbBrackets nbGroups =
     ''Number of brackets automatically detected: '' @ to_string usedNbBrackets @
     ''. It will generate '' @ to_string nbGroups @ '' hdr images.''"

definition compute_range ::
  "('i, 'p, 's) sampling_env \<Rightarrow> sampling_cfg \<Rightarrow> View list list \<Rightarrow> nat \<Rightarrow> nat \<Rightarrow> outcome" where
  "compute_range env cfg groupedViews width height =
     (case define_range (rangeStart cfg) (rangeSize cfg) (length groupedViews) of
        None \<Rightarrow> ([Log_error ''Range is incorrect''], Inr EXIT_FAILURE)
      | Some (start, sz) \<Rightarrow>
          process_groups env cfg groupedViews width height
            (channel_quantization (channelQuantizationPower cfg))
            (size_t start) (size_t (int32 (start + sz))))"

subsection \<open>The group sizes\<close>

text \<open>
  Lines 144 to 167. \<^verbatim>\<open>std::set<std::size_t> sizeOfGroups\<close> is the sorted list of the
  distinct group sizes; \<^verbatim>\<open>*sizeOfGroups.begin()\<close> is its first element.
\<close>

definition sizeOfGroups :: "View list list \<Rightarrow> nat list" where
  "sizeOfGroups groupedViews = sort (remdups (map length groupedViews))"

definition check_groups ::
  "('i, 'p, 's) sampling_env \<Rightarrow> sampling_cfg \<Rightarrow> View list list \<Rightarrow> nat \<Rightarrow> nat \<Rightarrow> outcome" where
  "check_groups env cfg groupedViews width height =
     (if length (sizeOfGroups groupedViews) = 1 then
        (let usedNbBrackets = hd (sizeOfGroups groupedViews) in
         if usedNbBrackets = 1 then ([Log_info ''No multi-bracketing.''], Inr EXIT_SUCCESS)
         else apfst ((#) (Log_info (brackets_msg usedNbBrackets (length groupedViews))))
                (compute_range env cfg groupedViews width height))
      else ([Log_error ''Exposure groups do not have a consistent number of brackets.''],
            Inr EXIT_FAILURE))"

subsection \<open>The driver\<close>

text \<open>
  Lines 119 to 142, then the group check and the loop.
  \<^verbatim>\<open>sfmData.getIntrinsics().begin()->second\<close> dereferences \<^verbatim>\<open>end()\<close> when the
  scene has no intrinsic.
\<close>

definition aliceVision_main_sampling ::
  "('i, 'p, 's) sampling_env \<Rightarrow> sampling_cfg \<Rightarrow> outcome" where
  "aliceVision_main_sampling env cfg =
     (case Load env (sfmInputDataFilename cfg) of
        None \<Rightarrow>
          ([Load_SfMData (sfmInputDataFilename cfg),
            Log_error (cannot_be_read_msg (sfmInputDataFilename cfg))],
           Inr EXIT_FAILURE)
      | Some sfmData \<Rightarrow>
          apfst ((#) (Load_SfMData (sfmInputDataFilename cfg)))
            (if 1 < length (intrinsics sfmData)
             then ([Log_error (''Only one intrinsic allowed ('' @
                                to_string (length (intrinsics sfmData)) @ '' found)'')],
                   Inr EXIT_FAILURE)
             else
               (case intrinsics sfmData of
                  [] \<Rightarrow> ([], Inl Undefined_behaviour)
                | (_, intr) # _ \<Rightarrow>
                    (case estimateBracketsFromSfmData env sfmData (nbBrackets cfg) of
                       None \<Rightarrow> ([], Inr EXIT_FAILURE)
                     | Some groupedViews \<Rightarrow>
                         check_groups env cfg groupedViews
                           (intrinsic_w env intr) (intrinsic_h env intr)))))"

text \<open>
  The trace of running the loop body for the groups \<open>idxs\<close>, one after the other.
\<close>

definition groups_trace ::
  "('i, 'p, 's) sampling_env \<Rightarrow> sampling_cfg \<Rightarrow> View list list \<Rightarrow> nat \<Rightarrow> nat \<Rightarrow> nat list \<Rightarrow> event list" where
  "groups_trace env cfg groupedViews width height idxs =
     concat (map (\<lambda>i. fst (process_group env cfg groupedViews width height
                             (channel_quantization (channelQuantizationPower cfg)) i)) idxs)"

text \<open>
  The content of \<^verbatim>\<open>out_samples\<close> after the extraction for the group \<open>groupIdx\<close>
  (line 206), in a run of the driver with the configuration \<open>cfg\<close>.
\<close>

definition out_samples_of ::
  "('i, 'p, 's) sampling_env \<Rightarrow> sampling_cfg \<Rightarrow> View list list \<Rightarrow> nat \<Rightarrow> nat \<Rightarrow> nat \<Rightarrow> 's list" where
  "out_samples_of env cfg groupedViews width height groupIdx =
     snd (extractSamplesFromImages env
            (map imagePath (groupedViews ! groupIdx))
            (map cameraExposureSetting (groupedViews ! groupIdx))
            width height (channel_quantization (channelQuantizationPower cfg)) (params cfg))"

text \<open>The samples files a run wrote, in order; then the same with their content.\<close>

fun written_files :: "event list \<Rightarrow> string list" where
  "written_files [] = []"
| "written_files (Write_file p b # tr) = p # written_files tr"
| "written_files (e # tr) = written_files tr"

fun written_contents :: "event list \<Rightarrow> (string \<times> byte list) list" where
  "written_contents [] = []"
| "written_contents (Write_file p b # tr) = (p, b) # written_contents tr"
| "written_contents (e # tr) = written_contents tr"

subsection \<open>Reading a samples file back\<close>

fun le_value :: "byte list \<Rightarrow> nat" where
  "le_value [] = 0"
| "le_value (b # bs) = unat b + 256 * le_value bs"

text \<open>
  Modelled from the spec: the reader of a samples file. The code that reads the files
  back belongs to a later stage of the HDR pipeline and is not among the sources, and
  neither is \<^verbatim>\<open>operator<<\<close> / \<^verbatim>\<open>operator>>\<close> of \<^verbatim>\<open>hdr::ImageSample\<close>. The spec
  describes the file as "a record count followed by one fixed-format record per
  sample", "written and read back verbatim". The reader therefore takes the eight
  bytes of the count, then that many records of the fixed length \<open>len\<close>, each decoded
  by \<open>dec\<close>; it fails (\<open>None\<close>) when the file is too short or a record does not
  decode.
\<close>

fun read_records :: "(byte list \<Rightarrow> 's option) \<Rightarrow> nat \<Rightarrow> nat \<Rightarrow> byte list \<Rightarrow> 's list option" where
  "read_records dec len 0 bs = Some []"
| "read_records dec len (Suc n) bs =
     (if length bs < len then None
      else (case dec (take len bs) of
              None \<Rightarrow> None
            | Some s \<Rightarrow> map_option ((#) s) (read_records dec len n (drop len bs))))"

definition read_samples :: "(byte list \<Rightarrow> 's option) \<Rightarrow> nat \<Rightarrow> byte list \<Rightarrow> 's list option" where
  "read_samples dec len bs =
     (if length bs < 8 then None
      else read_records dec len (le_value (take 8 bs)) (drop 8 bs))"

text \<open>
  Modelled from the spec: \<^verbatim>\<open>hdr::ImageSample\<close> and its stream operators are not
  among the sources. This is one fixed-format record in the spec's sense ("position,
  per-camera radiance/intensity statistics"), for a single camera: a position of two
  64-bit values and one 32-bit statistic (the bit pattern of a \<^verbatim>\<open>float\<close>), twenty
  bytes, each value least significant byte first. It instantiates \<open>write_sample\<close> in
  the example runs.
\<close>

record ImageSample =
  sample_x :: "64 word"
  sample_y :: "64 word"
  sample_stat :: "32 word"

definition write_ImageSample :: "ImageSample \<Rightarrow> byte list" where
  "write_ImageSample s =
     le_bytes 8 (unat (sample_x s)) @ le_bytes 8 (unat (sample_y s)) @ le_bytes 4 (unat (sample_stat s))"

definition read_ImageSample :: "byte list \<Rightarrow> ImageSample option" where
  "read_ImageSample bs =
     (if length bs = 20
      then Some \<lparr>sample_x = of_nat (le_value (take 8 bs)),
                 sample_y = of_nat (le_value (take 8 (drop 8 bs))),
                 sample_stat = of_nat (le_value (drop 16 bs))\<rparr>
      else None)"

subsection \<open>Example runs of the sampling driver\<close>

definition example_scene :: "(nat \<times> nat, unit) SfMData" where
  "example_scene =
     \<lparr>views = Map.empty, intrinsics = [(0, (4000, 3000))], poses = Map.empty, landmarks = []\<rparr>"

definition bracket :: "string \<Rightarrow> real \<Rightarrow> View" where
  "bracket p e = \<lparr>viewId = 0, intrinsicId = 0, poseId = 0, imagePath = p, cameraExposureSetting = e\<rparr>"

text \<open>Two exposure groups of two brackets each, and variants.\<close>

definition groups_2x2 :: "View list list" where
  "groups_2x2 = [[bracket ''a0.jpg'' 1, bracket ''a1.jpg'' 2],
                 [bracket ''b0.jpg'' 1, bracket ''b1.jpg'' 2]]"

definition groups_single :: "View list list" where
  "groups_single = [[bracket ''a0.jpg'' 1], [bracket ''b0.jpg'' 1]]"

definition groups_mixed :: "View list list" where
  "groups_mixed = [[bracket ''a0.jpg'' 1, bracket ''a1.jpg'' 2], [bracket ''b0.jpg'' 1]]"

definition one_sample :: ImageSample where
  "one_sample = \<lparr>sample_x = 3, sample_y = 5, sample_stat = 63\<rparr>"

text \<open>
  A world in which the scene loads, bracket estimation yields \<open>groups\<close>, every output
  file can be opened, and sample extraction succeeds (with one sample) exactly for the
  groups whose first image is not \<open>bad\<close>; a failed extraction leaves no sample.
\<close>

definition example_env :: "View list list \<Rightarrow> string \<Rightarrow> (nat \<times> nat, unit, ImageSample) sampling_env" where
  "example_env groups bad =
     \<lparr>Load = (\<lambda>f. Some example_scene),
      intrinsic_w = fst, intrinsic_h = snd,
      estimateBracketsFromSfmData = (\<lambda>sfm n. Some groups),
      extractSamplesFromImages =
        (\<lambda>paths exposures w h q ps. if hd paths = bad then (False, []) else (True, [one_sample])),
      is_open = (\<lambda>p. True),
      write_sample = write_ImageSample\<rparr>"

definition example_cfg :: "int \<Rightarrow> int \<Rightarrow> sampling_cfg" where
  "example_cfg start sz =
     \<lparr>sfmInputDataFilename = ''in.sfm'', outputFolder = ''out'', nbBrackets = 0,
      channelQuantizationPower = 10, byPass = False,
      params = \<lparr>blockSize = 256, radius = 5, maxCountSample = 200\<rparr>,
      rangeStart = start, rangeSize = sz\<rparr>"

section \<open>The meshing driver (main_meshing.cpp)\<close>

subsection \<open>Modes and configuration\<close>

datatype EPartitioningMode = ePartitioningUndefined | ePartitioningSingleBlock | ePartitioningAuto

definition EPartitioning_stringToEnum :: "string \<Rightarrow> EPartitioningMode" where
  "EPartitioning_stringToEnum s =
     (if s = ''singleBlock'' then ePartitioningSingleBlock
      else if s = ''auto'' then ePartitioningAuto
      else ePartitioningUndefined)"

datatype ERepartitionMode = eRepartitionUndefined | eRepartitionMultiResolution

definition ERepartitionMode_stringToEnum :: "string \<Rightarrow> ERepartitionMode" where
  "ERepartitionMode_stringToEnum s =
     (if s = ''multiResolution'' then eRepartitionMultiResolution else eRepartitionUndefined)"

text \<open>The numeric value of the enumerators, as the warnings of lines 307 and 308 print them.\<close>

fun partitioning_value :: "EPartitioningMode \<Rightarrow> nat" where
  "partitioning_value ePartitioningUndefined = 0"
| "partitioning_value ePartitioningSingleBlock = 1"
| "partitioning_value ePartitioningAuto = 2"

fun repartition_value :: "ERepartitionMode \<Rightarrow> nat" where
  "repartition_value eRepartitionUndefined = 0"
| "repartition_value eRepartitionMultiResolution = 1"

record FuseParams =
  maxInputPoints :: int
  maxPoints :: int
  minStep :: int
  simFactor :: real
  angleFactor :: real
  pixSizeMarginInitCoef :: real
  pixSizeMarginFinalCoef :: real
  voteMarginFactor :: real
  contributeMarginFactor :: real
  simGaussianSizeInit :: real
  simGaussianSize :: real
  minAngleThreshold :: real
  refineFuse :: bool

record meshing_cfg =
  sfmDataFilename :: string
  outputMesh :: string
  outputDensePointCloud :: string
  depthMapsFolder :: string
  partitioningMode :: EPartitioningMode
  repartitionMode :: ERepartitionMode
  estimateSpaceMinObservations :: nat
  estimateSpaceMinObservationAngle :: real
  universePercentile :: real
  maxPtsPerVoxel :: int
  estimateSpaceFromSfM :: bool
  addLandmarksToTheDensePointCloud :: bool
  saveRawDensePointCloud :: bool
  colorizeOutput :: bool
  forceTEdgeDelta :: real
  seed :: nat
  fuseParams :: FuseParams

subsection \<open>The libraries the driver calls\<close>

datatype param_value = Double real | Float real | UInt nat

text \<open>
  \<^verbatim>\<open>mvsUtils::MultiViewParams\<close> is seen through what the driver uses of it: the number
  of cameras, the view id of a camera index, and the user parameters it stores into.
\<close>

record MultiViewParams =
  getNbCameras :: nat
  getViewId :: "nat \<Rightarrow> IndexT"
  userParams :: "(string \<times> param_value) list"

type_synonym hexahedron = "Point3d list"

text \<open>
  The calls into \<^verbatim>\<open>fuseCut\<close>, \<^verbatim>\<open>mesh\<close>, \<^verbatim>\<open>sfmData\<close>, \<^verbatim>\<open>camera\<close> and the file
  system, taken as total functions. \<open>'g\<close> is the state of the
  \<^verbatim>\<open>DelaunayGraphCut\<close> object; \<open>createMesh\<close> and \<open>meshPostProcessing\<close> return the mesh
  pointer (\<open>None\<close> for \<^verbatim>\<open>nullptr\<close>); \<open>meshPostProcessing\<close> takes the mesh and the
  visibilities by reference and returns both. \<open>project intr pose pt d\<close> is
  \<^verbatim>\<open>intr->project(pose.getTransform(), pt, d)\<close>. The two calls into
  \<^verbatim>\<open>boost::filesystem\<close> are the throwing overloads: \<open>is_directory\<close> and
  \<open>create_directory\<close> give \<open>None\<close> when the call throws
  \<^verbatim>\<open>filesystem_error\<close>, and the returned boolean otherwise.
\<close>

record ('i, 'p, 'g) meshing_env = "('i, 'p) sfm_io" +
  new_MultiViewParams :: "('i, 'p) SfMData \<Rightarrow> string \<Rightarrow> bool \<Rightarrow> MultiViewParams"
  parent_path :: "string \<Rightarrow> string"
  is_directory :: "string \<Rightarrow> bool option"
  create_directory :: "string \<Rightarrow> bool option"
  divideSpaceFromDepthMaps :: "MultiViewParams \<Rightarrow> hexahedron"
  divideSpaceFromSfM :: "MultiViewParams \<Rightarrow> ('i, 'p) SfMData \<Rightarrow> nat \<Rightarrow> real \<Rightarrow> hexahedron"
  findCamsWhichIntersectsHexahedron :: "MultiViewParams \<Rightarrow> hexahedron \<Rightarrow> nat list"
  createDensePointCloud ::
    "MultiViewParams \<Rightarrow> hexahedron \<Rightarrow> nat list \<Rightarrow> ('i, 'p) SfMData option \<Rightarrow> FuseParams option \<Rightarrow> 'g"
  verticesCoords :: "'g \<Rightarrow> Point3d list"
  createPtsCams :: "'g \<Rightarrow> nat list list"
  createGraphCut :: "'g \<Rightarrow> hexahedron \<Rightarrow> nat list \<Rightarrow> string \<Rightarrow> string \<Rightarrow> 'g"
  graphCutPostProcessing :: "'g \<Rightarrow> 'g"
  createMesh :: "'g \<Rightarrow> Mesh option"
  meshPostProcessing ::
    "Mesh option \<Rightarrow> nat list list \<Rightarrow> MultiViewParams \<Rightarrow> string \<Rightarrow> hexahedron
       \<Rightarrow> Mesh option \<times> nat list list"
  project :: "'i \<Rightarrow> 'p \<Rightarrow> Point3d \<Rightarrow> bool \<Rightarrow> Vec2"
  colorizeTracks :: "('i, 'p) SfMData \<Rightarrow> ('i, 'p) SfMData"

subsection \<open>createDenseSfMData and removeLandmarksWithoutObservations\<close>

text \<open>The colour a freshly constructed landmark carries until it is colorized.\<close>

definition new_landmark_rgb :: rgb where
  "new_landmark_rgb = (255, 255, 255)"

text \<open>
  The inner loop of lines 104 to 110, over the cameras of one point.
  \<^verbatim>\<open>sfmData.getView\<close> and \<^verbatim>\<open>sfmData.getPose\<close> are \<^verbatim>\<open>at\<close> lookups; a missing
  intrinsic gives a null pointer, which the call dereferences.
\<close>

fun add_observations ::
  "('i, 'p, 'g) meshing_env \<Rightarrow> ('i, 'p) SfMData \<Rightarrow> MultiViewParams \<Rightarrow> Point3d \<Rightarrow> nat list
     \<Rightarrow> (IndexT \<times> Observation) list \<Rightarrow> error + (IndexT \<times> Observation) list" where
  "add_observations env sfmData mp pt3D [] obs = Inr obs"
| "add_observations env sfmData mp pt3D (cam # cams) obs =
     (case views sfmData (getViewId mp cam) of
        None \<Rightarrow> Inl Out_of_range
      | Some view \<Rightarrow>
          (case poses sfmData (poseId view) of
             None \<Rightarrow> Inl Out_of_range
           | Some pose \<Rightarrow>
               (case map_of (intrinsics sfmData) (intrinsicId view) of
                  None \<Rightarrow> Inl Undefined_behaviour
                | Some intr \<Rightarrow>
                    add_observations env sfmData mp pt3D cams
                      (AList.update (viewId view)
                         \<lparr>obs_x = project env intr pose pt3D True, id_feat = None, scale = 0\<rparr>
                         obs))))"

text \<open>
  The outer loop of lines 96 to 113, from index \<open>i\<close> on; the landmark of vertex \<open>i\<close>
  is stored under the key \<open>i\<close>. \<^verbatim>\<open>ptsCams[i]\<close> is unchecked.
\<close>

fun dense_landmarks ::
  "('i, 'p, 'g) meshing_env \<Rightarrow> ('i, 'p) SfMData \<Rightarrow> MultiViewParams \<Rightarrow> nat \<Rightarrow> Point3d list
     \<Rightarrow> nat list list \<Rightarrow> error + (IndexT \<times> Landmark) list" where
  "dense_landmarks env sfmData mp i [] ptsCams = Inr []"
| "dense_landmarks env sfmData mp i (point # vertices) ptsCams =
     (if length ptsCams \<le> i then Inl Undefined_behaviour
      else
        (case (if ptsCams ! i \<noteq> [] then add_observations env sfmData mp point (ptsCams ! i) []
               else Inr []) of
           Inl e \<Rightarrow> Inl e
         | Inr obs \<Rightarrow>
             (case dense_landmarks env sfmData mp (Suc i) vertices ptsCams of
                Inl e \<Rightarrow> Inl e
              | Inr ls \<Rightarrow>
                  Inr ((i, \<lparr>position = point, descType = UNKNOWN, observations = obs,
                             rgb = new_landmark_rgb\<rparr>) # ls))))"

definition createDenseSfMData ::
  "('i, 'p, 'g) meshing_env \<Rightarrow> ('i, 'p) SfMData \<Rightarrow> MultiViewParams \<Rightarrow> Point3d list \<Rightarrow> nat list list
     \<Rightarrow> error + ('i, 'p) SfMData" where
  "createDenseSfMData env sfmData mp vertices ptsCams =
     (case dense_landmarks env sfmData mp 0 vertices ptsCams of
        Inl e \<Rightarrow> Inl e
      | Inr ls \<Rightarrow> Inr (sfmData\<lparr>landmarks := ls\<rparr>))"

definition removeLandmarksWithoutObservations :: "('i, 'p) SfMData \<Rightarrow> ('i, 'p) SfMData" where
  "removeLandmarksWithoutObservations sfmData =
     sfmData\<lparr>landmarks := filter (\<lambda>(k, l). observations l \<noteq> []) (landmarks sfmData)\<rparr>"

subsection \<open>The driver, stage by stage\<close>

text \<open>
  Lines 265 to 281: \<open>None\<close> when the options are rejected, otherwise the values of
  \<^verbatim>\<open>meshingFromDepthMaps\<close> and \<^verbatim>\<open>addLandmarksToTheDensePointCloud\<close> from there on.
\<close>

definition input_options :: "meshing_cfg \<Rightarrow> (bool \<times> bool) option" where
  "input_options cfg =
     (if depthMapsFolder cfg = [] then
        (if repartitionMode cfg = eRepartitionMultiResolution \<and>
            partitioningMode cfg = ePartitioningSingleBlock
         then Some (False, True)
         else None)
      else Some (True, addLandmarksToTheDensePointCloud cfg))"

text \<open>Lines 292 to 296: the multi-view parameters with the three user parameters stored.\<close>

definition init_mp ::
  "('i, 'p, 'g) meshing_env \<Rightarrow> meshing_cfg \<Rightarrow> ('i, 'p) SfMData \<Rightarrow> bool \<Rightarrow> MultiViewParams" where
  "init_mp env cfg sfmData meshingFromDepthMaps =
     (let mp = new_MultiViewParams env sfmData (depthMapsFolder cfg) meshingFromDepthMaps in
      mp\<lparr>userParams :=
           AList.update ''delaunaycut.seed'' (UInt (seed cfg))
             (AList.update ''delaunaycut.forceTEdgeDelta'' (Float (forceTEdgeDelta cfg))
                (AList.update ''LargeScale.universePercentile'' (Double (universePercentile cfg))
                   (userParams mp)))\<rparr>)"

definition outDirectory :: "('i, 'p, 'g) meshing_env \<Rightarrow> meshing_cfg \<Rightarrow> string" where
  "outDirectory env cfg = parent_path env (outputMesh cfg)"

definition raw_dense_path :: "string \<Rightarrow> string" where
  "raw_dense_path dir = path_append dir ''densePointCloud_raw.abc''"

text \<open>Lines 353 to 364, when \<^verbatim>\<open>saveRawDensePointCloud\<close> is set.\<close>

definition save_raw_dense_point_cloud ::
  "('i, 'p, 'g) meshing_env \<Rightarrow> meshing_cfg \<Rightarrow> ('i, 'p) SfMData \<Rightarrow> MultiViewParams \<Rightarrow> 'g
     \<Rightarrow> event list \<times> (error + unit)" where
  "save_raw_dense_point_cloud env cfg sfmData mp g =
     (case createDenseSfMData env sfmData mp (verticesCoords env g) (createPtsCams env g) of
        Inl e \<Rightarrow> ([Log_info ''Save dense point cloud before cut and filtering.''], Inl e)
      | Inr dense \<Rightarrow>
          (let filtered = removeLandmarksWithoutObservations dense;
               densePointCloud = (if colorizeOutput cfg then colorizeTracks env filtered else filtered)
           in ([Log_info ''Save dense point cloud before cut and filtering.'',
                Save_SfMData (raw_dense_path (outDirectory env cfg)) (landmarks densePointCloud)],
               Inr ())))"

text \<open>Lines 351 to 370: from the dense point cloud to the post-processed mesh.\<close>

definition cut_and_mesh ::
  "('i, 'p, 'g) meshing_env \<Rightarrow> meshing_cfg \<Rightarrow> ('i, 'p) SfMData \<Rightarrow> MultiViewParams \<Rightarrow> bool \<Rightarrow> bool
     \<Rightarrow> hexahedron \<Rightarrow> nat list \<Rightarrow> event list \<times> (error + Mesh option \<times> nat list list)" where
  "cut_and_mesh env cfg sfmData mp meshingFromDepthMaps addLandmarks hexah cams =
     (let g = createDensePointCloud env mp hexah cams
                (if addLandmarks then Some sfmData else None)
                (if meshingFromDepthMaps then Some (fuseParams cfg) else None);
          raw = (if saveRawDensePointCloud cfg then save_raw_dense_point_cloud env cfg sfmData mp g
                 else ([], Inr ()))
      in case snd raw of
           Inl e \<Rightarrow> (Create_dense_point_cloud # fst raw, Inl e)
         | Inr u \<Rightarrow>
             (let g' = graphCutPostProcessing env
                         (createGraphCut env g hexah cams (outDirectory env cfg @ ''/'')
                            (outDirectory env cfg @ ''/SpaceCamsTracks/''))
              in (Create_dense_point_cloud # fst raw @ [Create_graph_cut, Mesh_post_processing],
                  Inr (meshPostProcessing env (createMesh env g') (createPtsCams env g') mp
                         (outDirectory env cfg @ ''/'') hexah))))"

text \<open>Lines 331 to 334: the hexahedron, and the event of the call that estimates it.\<close>

definition estimate_space ::
  "('i, 'p, 'g) meshing_env \<Rightarrow> meshing_cfg \<Rightarrow> ('i, 'p) SfMData \<Rightarrow> MultiViewParams \<Rightarrow> bool
     \<Rightarrow> event \<times> hexahedron" where
  "estimate_space env cfg sfmData mp meshingFromDepthMaps =
     (if meshingFromDepthMaps \<and> \<not> estimateSpaceFromSfM cfg
      then (Divide_space_from_depth_maps, divideSpaceFromDepthMaps env mp)
      else (Divide_space_from_SfM,
            divideSpaceFromSfM env mp sfmData (estimateSpaceMinObservations cfg)
              (estimateSpaceMinObservationAngle cfg)))"

text \<open>Lines 336 to 346: the cameras of the reconstruction.\<close>

definition select_cams ::
  "('i, 'p, 'g) meshing_env \<Rightarrow> MultiViewParams \<Rightarrow> bool \<Rightarrow> hexahedron \<Rightarrow> nat list" where
  "select_cams env mp meshingFromDepthMaps hexah =
     (if meshingFromDepthMaps then findCamsWhichIntersectsHexahedron env mp hexah
      else [0..<getNbCameras mp])"

text \<open>Lines 323 to 373: the single-block case.\<close>

definition single_block ::
  "('i, 'p, 'g) meshing_env \<Rightarrow> meshing_cfg \<Rightarrow> ('i, 'p) SfMData \<Rightarrow> MultiViewParams \<Rightarrow> bool \<Rightarrow> bool
     \<Rightarrow> event list \<times> (error + Mesh option \<times> nat list list)" where
  "single_block env cfg sfmData mp meshingFromDepthMaps addLandmarks =
     (let space = estimate_space env cfg sfmData mp meshingFromDepthMaps;
          hexah = snd space;
          cams = select_cams env mp meshingFromDepthMaps hexah;
          tr = [Log_info ''Meshing mode: multi-resolution, partitioning: single block.'', fst space] @
               (if meshingFromDepthMaps then [Find_cams_which_intersects_hexahedron] else [])
      in if cams = [] then (tr, Inl (Logic_error ''No camera to make the reconstruction''))
         else apfst ((@) tr)
                (cut_and_mesh env cfg sfmData mp meshingFromDepthMaps addLandmarks hexah cams))"

definition auto_not_implemented :: string where
  "auto_not_implemented =
     ''Meshing mode: '' @ [CHR 0x27] @ ''multiResolution'' @ [CHR 0x27] @ '', partitioning: '' @
     [CHR 0x27] @ ''auto'' @ [CHR 0x27] @ '' is not yet implemented.''"

text \<open>Lines 313 to 383: the two nested switches.\<close>

definition reconstruct ::
  "('i, 'p, 'g) meshing_env \<Rightarrow> meshing_cfg \<Rightarrow> ('i, 'p) SfMData \<Rightarrow> MultiViewParams \<Rightarrow> bool \<Rightarrow> bool
     \<Rightarrow> event list \<times> (error + Mesh option \<times> nat list list)" where
  "reconstruct env cfg sfmData mp meshingFromDepthMaps addLandmarks =
     (case repartitionMode cfg of
        eRepartitionMultiResolution \<Rightarrow>
          (case partitioningMode cfg of
             ePartitioningAuto \<Rightarrow> ([], Inl (Invalid_argument auto_not_implemented))
           | ePartitioningSingleBlock \<Rightarrow>
               single_block env cfg sfmData mp meshingFromDepthMaps addLandmarks
           | ePartitioningUndefined \<Rightarrow>
               ([], Inl (Invalid_argument ''Partitioning mode is not defined'')))
      | eRepartitionUndefined \<Rightarrow> ([], Inl (Invalid_argument ''Repartition mode is not defined'')))"

text \<open>
  Lines 403 to 410: the colour of vertex \<open>i\<close> is the colour of the landmark with key
  \<open>i\<close>, looked up with \<^verbatim>\<open>at\<close>.
\<close>

fun landmark_colors :: "(IndexT \<times> Landmark) list \<Rightarrow> nat list \<Rightarrow> error + rgb list" where
  "landmark_colors ls [] = Inr []"
| "landmark_colors ls (i # idxs) =
     (case map_of ls i of
        None \<Rightarrow> Inl Out_of_range
      | Some l \<Rightarrow>
          (case landmark_colors ls idxs of
             Inl e \<Rightarrow> Inl e
           | Inr cs \<Rightarrow> Inr (rgb l # cs)))"

text \<open>
  Lines 395 to 413: the dense point cloud of the final mesh and the mesh as it will
  be saved.
\<close>

definition dense_point_cloud_of_mesh ::
  "('i, 'p, 'g) meshing_env \<Rightarrow> meshing_cfg \<Rightarrow> ('i, 'p) SfMData \<Rightarrow> MultiViewParams \<Rightarrow> Mesh
     \<Rightarrow> nat list list \<Rightarrow> error + ('i, 'p) SfMData \<times> Mesh" where
  "dense_point_cloud_of_mesh env cfg sfmData mp mesh ptsCams =
     (case createDenseSfMData env sfmData mp (pts mesh) ptsCams of
        Inl e \<Rightarrow> Inl e
      | Inr dense \<Rightarrow>
          (if colorizeOutput cfg then
             (let colorized = colorizeTracks env dense in
              case landmark_colors (landmarks colorized) [0..<length (pts mesh)] of
                Inl e \<Rightarrow> Inl e
              | Inr cs \<Rightarrow> Inr (removeLandmarksWithoutObservations colorized, mesh\<lparr>colors := cs\<rparr>))
           else Inr (removeLandmarksWithoutObservations dense, mesh)))"

text \<open>
  Line 389: \<^verbatim>\<open>mesh == nullptr || mesh->pts.empty() || mesh->tris.empty()\<close>.
\<close>

definition no_valid_mesh :: "Mesh option \<Rightarrow> bool" where
  "no_valid_mesh mesh = (case mesh of None \<Rightarrow> True | Some m \<Rightarrow> pts m = [] \<or> tris m = [])"

text \<open>Lines 385 to 423: the checks on the mesh and the two output files.\<close>

definition generate_output ::
  "('i, 'p, 'g) meshing_env \<Rightarrow> meshing_cfg \<Rightarrow> ('i, 'p) SfMData \<Rightarrow> MultiViewParams \<Rightarrow> Mesh option
     \<Rightarrow> nat list list \<Rightarrow> outcome" where
  "generate_output env cfg sfmData mp mesh ptsCams =
     (case mesh of
        None \<Rightarrow> ([], Inl (Runtime_error ''No valid mesh was generated.''))
      | Some m \<Rightarrow>
          if no_valid_mesh mesh
          then ([], Inl (Runtime_error ''No valid mesh was generated.''))
          else if ptsCams = []
          then ([], Inl (Runtime_error ''Points visibilities data has not been initialized.''))
          else
            (case dense_point_cloud_of_mesh env cfg sfmData mp m ptsCams of
               Inl e \<Rightarrow> ([], Inl e)
             | Inr (densePointCloud, m') \<Rightarrow>
                 ([Log_info ''Save dense point cloud.'',
                   Save_SfMData (outputDensePointCloud cfg) (landmarks densePointCloud),
                   Log_info ''Save obj mesh file.'',
                   Save_obj (outputMesh cfg) m',
                   Log_info ''Task done''],
                  Inr EXIT_SUCCESS)))"

text \<open>
  Lines 301 to 303: the output directory is created when it is not there. The result
  is \<open>None\<close> when \<^verbatim>\<open>fs::is_directory\<close> or \<^verbatim>\<open>fs::create_directory\<close> throws, and the
  events of the step otherwise (a directory created, or nothing).
\<close>

definition directory_events :: "('i, 'p, 'g) meshing_env \<Rightarrow> meshing_cfg \<Rightarrow> event list option" where
  "directory_events env cfg =
     (case is_directory env (outDirectory env cfg) of
        None \<Rightarrow> None
      | Some True \<Rightarrow> Some []
      | Some False \<Rightarrow>
          (case create_directory env (outDirectory env cfg) of
             None \<Rightarrow> None
           | Some created \<Rightarrow>
               Some (if created then [Create_directory (outDirectory env cfg)] else [])))"

definition output_directory_ready :: "('i, 'p, 'g) meshing_env \<Rightarrow> meshing_cfg \<Rightarrow> bool" where
  "output_directory_ready env cfg \<longleftrightarrow> directory_events env cfg \<noteq> None"

text \<open>
  Lines 283 to 308: the trace of a run from the load to the switch, when the step of
  the output directory does not throw.
\<close>

definition setup_trace :: "('i, 'p, 'g) meshing_env \<Rightarrow> meshing_cfg \<Rightarrow> event list" where
  "setup_trace env cfg =
     Load_SfMData (sfmDataFilename cfg) #
     (case directory_events env cfg of None \<Rightarrow> [] | Some evs \<Rightarrow> evs) @
     [Log_warning (''repartitionMode: '' @ to_string (repartition_value (repartitionMode cfg))),
      Log_warning (''partitioningMode: '' @ to_string (partitioning_value (partitioningMode cfg)))]"

text \<open>The message of lines 276 to 278.\<close>

definition invalid_input_options_msg :: string where
  "invalid_input_options_msg =
     ''Invalid input options:'' @ [CHR 0x0A] @
     ''- Meshing from depth maps require --depthMapsFolder option.'' @ [CHR 0x0A] @
     ''- Meshing from SfM require option --partitioning set to '' @ quoted ''singleBlock'' @
     '' and option --repartition set to '' @ quoted ''multiResolution'' @ ''.''"

definition aliceVision_main_meshing :: "('i, 'p, 'g) meshing_env \<Rightarrow> meshing_cfg \<Rightarrow> outcome" where
  "aliceVision_main_meshing env cfg =
     (case input_options cfg of
        None \<Rightarrow> ([Log_error invalid_input_options_msg], Inr EXIT_FAILURE)
      | Some (meshingFromDepthMaps, addLandmarks) \<Rightarrow>
          (case Load env (sfmDataFilename cfg) of
             None \<Rightarrow>
               ([Load_SfMData (sfmDataFilename cfg),
                 Log_error (cannot_be_read_msg (sfmDataFilename cfg))],
                Inr EXIT_FAILURE)
           | Some sfmData \<Rightarrow>
               (let mp = init_mp env cfg sfmData meshingFromDepthMaps in
                if \<not> output_directory_ready env cfg
                then ([Load_SfMData (sfmDataFilename cfg)], Inl Filesystem_error)
                else
                  (let rec = reconstruct env cfg sfmData mp meshingFromDepthMaps addLandmarks
                   in case snd rec of
                        Inl e \<Rightarrow> (setup_trace env cfg @ fst rec, Inl e)
                      | Inr (mesh, ptsCams) \<Rightarrow>
                          apfst ((@) (setup_trace env cfg @ fst rec))
                            (generate_output env cfg sfmData mp mesh ptsCams)))))"

text \<open>
  In a run that gets past the option check, \<^verbatim>\<open>meshingFromDepthMaps\<close> holds exactly
  when a depth-maps folder was given; \<open>run_mp\<close> and \<open>run_hexah\<close> are the multi-view
  parameters and the estimated hexahedron of such a run.
\<close>

definition run_mp :: "('i, 'p, 'g) meshing_env \<Rightarrow> meshing_cfg \<Rightarrow> ('i, 'p) SfMData \<Rightarrow> MultiViewParams" where
  "run_mp env cfg sfmData = init_mp env cfg sfmData (depthMapsFolder cfg \<noteq> [])"

definition run_hexah :: "('i, 'p, 'g) meshing_env \<Rightarrow> meshing_cfg \<Rightarrow> ('i, 'p) SfMData \<Rightarrow> hexahedron" where
  "run_hexah env cfg sfmData =
     snd (estimate_space env cfg sfmData (run_mp env cfg sfmData) (depthMapsFolder cfg \<noteq> []))"

text \<open>The files saved by a run (dense point clouds and meshes), in order.\<close>

fun saved_files :: "event list \<Rightarrow> string list" where
  "saved_files [] = []"
| "saved_files (Save_SfMData p ls # tr) = p # saved_files tr"
| "saved_files (Save_obj p m # tr) = p # saved_files tr"
| "saved_files (e # tr) = saved_files tr"

text \<open>The library stages of the reconstruction a run went through, in order.\<close>

fun computation_events :: "event list \<Rightarrow> event list" where
  "computation_events [] = []"
| "computation_events (Divide_space_from_depth_maps # tr) = Divide_space_from_depth_maps # computation_events tr"
| "computation_events (Divide_space_from_SfM # tr) = Divide_space_from_SfM # computation_events tr"
| "computation_events (Find_cams_which_intersects_hexahedron # tr) =
     Find_cams_which_intersects_hexahedron # computation_events tr"
| "computation_events (Create_dense_point_cloud # tr) = Create_dense_point_cloud # computation_events tr"
| "computation_events (Create_graph_cut # tr) = Create_graph_cut # computation_events tr"
| "computation_events (Mesh_post_processing # tr) = Mesh_post_processing # computation_events tr"
| "computation_events (e # tr) = computation_events tr"

subsection \<open>What the dense point cloud is specified to hold\<close>

text \<open>
  The spec's side of the dense point cloud, to be compared with what the code builds:
  the observation of a point in the view \<open>k\<close> is the re-projection of the point into
  that view's camera (its pose and intrinsic), with the distortion applied.
\<close>

definition spec_observation ::
  "('i, 'p, 'g) meshing_env \<Rightarrow> ('i, 'p) SfMData \<Rightarrow> Point3d \<Rightarrow> IndexT \<Rightarrow> Observation option" where
  "spec_observation env sfmData pt k =
     (case views sfmData k of
        None \<Rightarrow> None
      | Some view \<Rightarrow>
          (case poses sfmData (poseId view) of
             None \<Rightarrow> None
           | Some pose \<Rightarrow>
               (case map_of (intrinsics sfmData) (intrinsicId view) of
                  None \<Rightarrow> None
                | Some intr \<Rightarrow>
                    Some \<lparr>obs_x = project env intr pose pt True, id_feat = None, scale = 0\<rparr>)))"

text \<open>
  A camera index resolves when the scene has its view, stored under the view's own id,
  together with the pose and the intrinsic of that view.
\<close>

definition camera_resolves :: "('i, 'p) SfMData \<Rightarrow> MultiViewParams \<Rightarrow> nat \<Rightarrow> bool" where
  "camera_resolves sfmData mp cam =
     (case views sfmData (getViewId mp cam) of
        None \<Rightarrow> False
      | Some view \<Rightarrow>
          viewId view = getViewId mp cam \<and> poses sfmData (poseId view) \<noteq> None \<and>
          map_of (intrinsics sfmData) (intrinsicId view) \<noteq> None)"

text \<open>The keys, positions and observations of a list of landmarks (all but the colour).\<close>

definition landmark_geometry ::
  "(IndexT \<times> Landmark) list \<Rightarrow> (IndexT \<times> Point3d \<times> (IndexT \<times> Observation) list) list" where
  "landmark_geometry ls = map (\<lambda>(k, l). (k, position l, observations l)) ls"

text \<open>
  The landmarks \<open>ls\<close> hold the dense point cloud of the vertices when there is one
  landmark per vertex, keyed by the vertex index and placed at the vertex, whose
  observations are, one per view, the re-projections of the vertex into the views of
  the cameras that see it.
\<close>

definition dense_spec ::
  "('i, 'p, 'g) meshing_env \<Rightarrow> ('i, 'p) SfMData \<Rightarrow> MultiViewParams \<Rightarrow> Point3d list \<Rightarrow> nat list list
     \<Rightarrow> (IndexT \<times> Landmark) list \<Rightarrow> bool" where
  "dense_spec env sfmData mp vertices ptsCams ls \<longleftrightarrow>
     map fst ls = [0..<length vertices] \<and>
     (\<forall>j<length vertices.
        position (snd (ls ! j)) = vertices ! j \<and>
        distinct (map fst (observations (snd (ls ! j)))) \<and>
        map_of (observations (snd (ls ! j))) =
          (\<lambda>k. if k \<in> getViewId mp ` set (ptsCams ! j)
                then spec_observation env sfmData (vertices ! j) k else None))"

subsection \<open>Example runs of the meshing driver\<close>

definition cam_view :: "IndexT \<Rightarrow> View" where
  "cam_view k = \<lparr>viewId = k, intrinsicId = 0, poseId = k, imagePath = [], cameraExposureSetting = 1\<rparr>"

text \<open>A scene with two cameras (views 10 and 11), one intrinsic and no landmark.\<close>

definition mesh_scene :: "(nat, nat) SfMData" where
  "mesh_scene =
     \<lparr>views = [10 \<mapsto> cam_view 10, 11 \<mapsto> cam_view 11],
      intrinsics = [(0, 7)],
      poses = [10 \<mapsto> 100, 11 \<mapsto> 101],
      landmarks = []\<rparr>"

definition triangle :: Mesh where
  "triangle = \<lparr>pts = [(0, 0, 0), (1, 0, 0), (0, 1, 0)], tris = [(0, 1, 2)], colors = []\<rparr>"

text \<open>The same vertices without any triangle.\<close>

definition flat_triangle :: Mesh where
  "flat_triangle = \<lparr>pts = [(0, 0, 0), (1, 0, 0), (0, 1, 0)], tris = [], colors = []\<rparr>"

definition triangle_visibility :: "nat list list" where
  "triangle_visibility = [[0, 1], [], [1]]"

definition unit_cube :: hexahedron where
  "unit_cube = [(0, 0, 0), (1, 0, 0), (1, 1, 0), (0, 1, 0), (0, 0, 1), (1, 0, 1), (1, 1, 1), (0, 1, 1)]"

definition example_project :: "nat \<Rightarrow> nat \<Rightarrow> Point3d \<Rightarrow> bool \<Rightarrow> Vec2" where
  "example_project intr pose pt applyDistortion =
     (fst pt + real pose, if applyDistortion then fst (snd pt) + real intr else fst (snd pt))"

definition example_colorize :: "(nat, nat) SfMData \<Rightarrow> (nat, nat) SfMData" where
  "example_colorize sfm = sfm\<lparr>landmarks := map (\<lambda>(k, l). (k, l\<lparr>rgb := (k, 0, 0)\<rparr>)) (landmarks sfm)\<rparr>"

text \<open>
  A world in which the scene loads, the output directory does not exist yet and can be
  created, the cameras found to intersect the hexahedron are \<open>cams\<close>, and the graph cut yields
  \<open>mesh\<close> with the visibilities above.
\<close>

definition example_meshing_env :: "Mesh option \<Rightarrow> nat list \<Rightarrow> (nat, nat, unit) meshing_env" where
  "example_meshing_env mesh cams =
     \<lparr>Load = (\<lambda>f. Some mesh_scene),
      new_MultiViewParams =
        (\<lambda>sfm folder fromDepthMaps. \<lparr>getNbCameras = 2, getViewId = (\<lambda>c. 10 + c), userParams = []\<rparr>),
      parent_path = (\<lambda>p. ''out''),
      is_directory = (\<lambda>d. Some False),
      create_directory = (\<lambda>d. Some True),
      divideSpaceFromDepthMaps = (\<lambda>mp. unit_cube),
      divideSpaceFromSfM = (\<lambda>mp sfm n a. unit_cube),
      findCamsWhichIntersectsHexahedron = (\<lambda>mp h. cams),
      createDensePointCloud = (\<lambda>mp h cs sfm fp. ()),
      verticesCoords = (\<lambda>g. pts triangle),
      createPtsCams = (\<lambda>g. triangle_visibility),
      createGraphCut = (\<lambda>g h cs a b. g),
      graphCutPostProcessing = (\<lambda>g. g),
      createMesh = (\<lambda>g. mesh),
      meshPostProcessing = (\<lambda>m pc mp dir h. (m, pc)),
      project = example_project,
      colorizeTracks = example_colorize\<rparr>"

definition example_mp :: MultiViewParams where
  "example_mp = \<lparr>getNbCameras = 2, getViewId = (\<lambda>c. 10 + c), userParams = []\<rparr>"

definition example_fuseParams :: FuseParams where
  "example_fuseParams =
     \<lparr>maxInputPoints = 50000000, maxPoints = 5000000, minStep = 2, simFactor = 15,
      angleFactor = 15, pixSizeMarginInitCoef = 2, pixSizeMarginFinalCoef = 4,
      voteMarginFactor = 4, contributeMarginFactor = 2, simGaussianSizeInit = 10,
      simGaussianSize = 10, minAngleThreshold = 1 / 10, refineFuse = True\<rparr>"

definition example_meshing_cfg ::
  "string \<Rightarrow> EPartitioningMode \<Rightarrow> ERepartitionMode \<Rightarrow> bool \<Rightarrow> bool \<Rightarrow> meshing_cfg" where
  "example_meshing_cfg folder partitioning repartition saveRaw colorize =
     \<lparr>sfmDataFilename = ''in.sfm'', outputMesh = ''out/mesh.obj'',
      outputDensePointCloud = ''out/dense.abc'', depthMapsFolder = folder,
      partitioningMode = partitioning, repartitionMode = repartition,
      estimateSpaceMinObservations = 3, estimateSpaceMinObservationAngle = 10,
      universePercentile = 999 / 1000, maxPtsPerVoxel = 6000000,
      estimateSpaceFromSfM = True, addLandmarksToTheDensePointCloud = False,
      saveRawDensePointCloud = saveRaw, colorizeOutput = colorize,
      forceTEdgeDelta = 1 / 10, seed = 0, fuseParams = example_fuseParams\<rparr>"

section \<open>Properties of the sampling driver\<close>

subsection \<open>The loop\<close>

lemma written_files_append [simp]: "written_files (a @ b) = written_files a @ written_files b"
  by (induction a rule: written_files.induct) auto

lemma fst_process_group_written:
  assumes "i < length gv" "is_open env (samples_filepath (outputFolder cfg) i)"
  shows "written_files (fst (process_group env cfg gv w h cq i)) = [samples_filepath (outputFolder cfg) i]"
    and "snd (process_group env cfg gv w h cq i) = None"
  using assms by (simp_all add: process_group_def Let_def)

lemma process_groups_all_open:
  assumes "bound \<le> length gv"
      and "\<forall>i. groupIdx \<le> i \<and> i < bound \<longrightarrow> is_open env (samples_filepath (outputFolder cfg) i)"
  shows "process_groups env cfg gv w h cq groupIdx bound =
           (concat (map (\<lambda>i. fst (process_group env cfg gv w h cq i)) [groupIdx..<bound]),
            Inr EXIT_SUCCESS)"
  using assms
proof (induction env cfg gv w h cq groupIdx bound rule: process_groups.induct)
  case (1 env cfg gv w h cq groupIdx bound)
  show ?case
  proof (cases "groupIdx < bound")
    case False
    then show ?thesis by (simp add: process_groups.simps)
  next
    case True
    obtain tr where b: "process_group env cfg gv w h cq groupIdx = (tr, None)"
      using fst_process_group_written(2)[of groupIdx gv env cfg w h cq] True "1.prems"
      by (cases "process_group env cfg gv w h cq groupIdx") auto
    have ih: "process_groups env cfg gv w h cq (Suc groupIdx) bound =
           (concat (map (\<lambda>i. fst (process_group env cfg gv w h cq i)) [Suc groupIdx..<bound]),
            Inr EXIT_SUCCESS)"
      using "1.IH"[OF True b[symmetric] refl] "1.prems" by simp
    show ?thesis
      using True b ih by (subst process_groups.simps) (simp add: upt_conv_Cons)
  qed
qed


subsection \<open>The range arithmetic\<close>

lemma size_t_nonneg: "0 \<le> x \<Longrightarrow> x < 18446744073709551616 \<Longrightarrow> size_t x = nat x"
  by (simp add: size_t_def)

lemma size_t_neg:
  assumes "- 18446744073709551616 \<le> x" "x < 0"
  shows "size_t x = nat (x + 18446744073709551616)"
proof -
  have "x mod 18446744073709551616 = (x + 18446744073709551616) mod 18446744073709551616"
    by simp
  also have "\<dots> = x + 18446744073709551616"
    using assms by (intro mod_pos_pos_trivial) auto
  finally show ?thesis by (simp add: size_t_def)
qed

lemma int32_id: "- 2147483648 \<le> x \<Longrightarrow> x < 2147483648 \<Longrightarrow> int32 x = x"
  by (simp add: int32_def)

lemma int32_wrap_hi:
  assumes "2147483648 \<le> x" "x < 6442450944"
  shows "int32 x = x - 4294967296"
proof -
  have "x + 2147483648 = (x - 2147483648) + 4294967296" by simp
  then have "(x + 2147483648) mod 4294967296 = ((x - 2147483648) + 4294967296) mod 4294967296"
    by (rule arg_cong)
  also have "\<dots> = (x - 2147483648) mod 4294967296" by (rule mod_add_self2)
  also have "\<dots> = x - 2147483648"
    using assms by (intro mod_pos_pos_trivial) auto
  finally show ?thesis by (simp add: int32_def)
qed

lemma sum_bound_exceeds_iff:
  assumes "0 \<le> start" "start \<le> int n" "0 \<le> sz" "sz < 2147483648" "n < 2147483648"
  shows "n < size_t (int32 (start + sz)) \<longleftrightarrow> int n < start + sz"
proof (cases "start + sz < 2147483648")
  case True
  then have "int32 (start + sz) = start + sz" using assms by (intro int32_id) auto
  moreover have "size_t (start + sz) = nat (start + sz)"
    using assms True by (intro size_t_nonneg) auto
  ultimately show ?thesis using assms by auto
next
  case False
  then have w: "int32 (start + sz) = start + sz - 4294967296"
    using assms by (intro int32_wrap_hi) auto
  have "size_t (start + sz - 4294967296) = nat (start + sz - 4294967296 + 18446744073709551616)"
    using assms False by (intro size_t_neg) auto
  then show ?thesis using assms False w by auto
qed

lemma define_range_explicit:
  assumes "0 \<le> start" "start \<le> int n" "0 \<le> sz" "sz < 2147483648" "n < 2147483648"
  shows "define_range start sz n = Some (start, min sz (int n - start))"
proof -
  have s: "size_t start = nat start" using assms by (intro size_t_nonneg) auto
  have e: "n < size_t (int32 (start + sz)) \<longleftrightarrow> int n < start + sz"
    using assms by (rule sum_bound_exceeds_iff)
  have d: "int32 (int (size_t (int n - int (size_t start)))) = int n - start"
  proof -
    have "size_t (int n - start) = nat (int n - start)"
      using assms by (intro size_t_nonneg) auto
    then show ?thesis using assms s by (simp add: int32_id)
  qed
  show ?thesis
    using assms s e d by (auto simp: define_range_def min_def)
qed

lemma define_range_default:
  assumes "n < 2147483648"
  shows "define_range (- 1) sz n = Some (0, int n)"
  using assms by (simp add: define_range_def int32_id)

lemma define_range_rejected:
  assumes "start \<noteq> - 1" "- 2147483648 \<le> start" "start < 2147483648"
      and "start < 0 \<or> int n < start \<or> sz < 0"
  shows "define_range start sz n = None"
proof (cases "start < 0 \<or> sz < 0")
  case True
  then show ?thesis using assms by (auto simp: define_range_def)
next
  case False
  then have "size_t start = nat start" using assms by (intro size_t_nonneg) auto
  then show ?thesis using assms False by (auto simp: define_range_def)
qed

lemma loop_bounds:
  assumes "0 \<le> a" "0 \<le> m" "a + m < 2147483648"
  shows "size_t a = nat a" "size_t (int32 (a + m)) = nat a + nat m"
proof -
  show "size_t a = nat a" using assms by (intro size_t_nonneg) auto
  have "int32 (a + m) = a + m" using assms by (intro int32_id) auto
  moreover have "size_t (a + m) = nat (a + m)" using assms by (intro size_t_nonneg) auto
  ultimately show "size_t (int32 (a + m)) = nat a + nat m" using assms by (simp add: nat_add_distrib)
qed


subsection \<open>From the driver to the loop\<close>

lemma set_sizeOfGroups: "set (sizeOfGroups gs) = length ` set gs"
  by (simp add: sizeOfGroups_def)

lemma length_sizeOfGroups: "length (sizeOfGroups gs) = card (length ` set gs)"
  by (simp add: sizeOfGroups_def length_remdups_card_conv)

lemma sizeOfGroups_uniform:
  assumes "gs \<noteq> []" and "\<forall>g\<in>set gs. length g = m"
  shows "sizeOfGroups gs = [m]"
proof -
  have s: "length ` set gs = {m}" using assms by (cases gs) auto
  then have "length (sizeOfGroups gs) = 1" by (simp add: length_sizeOfGroups)
  then obtain k where k: "sizeOfGroups gs = [k]"
    by (cases "sizeOfGroups gs") auto
  then have "k \<in> set (sizeOfGroups gs)" by simp
  then have "k = m" using s by (simp add: set_sizeOfGroups)
  with k show ?thesis by simp
qed

lemma sizeOfGroups_inconsistent:
  assumes "g1 \<in> set gs" and "g2 \<in> set gs" and "length g1 \<noteq> length g2"
  shows "length (sizeOfGroups gs) \<noteq> 1"
proof
  assume "length (sizeOfGroups gs) = 1"
  then have "card (length ` set gs) = 1" by (simp add: length_sizeOfGroups)
  then obtain k where "length ` set gs = {k}" by (auto simp: card_1_singleton_iff)
  then have "length g1 = k" "length g2 = k" using assms by auto
  with assms show False by simp
qed

lemma main_multi_bracket:
  assumes "Load env (sfmInputDataFilename cfg) = Some sfmData"
      and "intrinsics sfmData = [(k, intr)]"
      and "estimateBracketsFromSfmData env sfmData (nbBrackets cfg) = Some gv"
      and "gv \<noteq> []" and "\<forall>g\<in>set gv. length g = m" and "m \<noteq> 1"
  shows "aliceVision_main_sampling env cfg =
           (Load_SfMData (sfmInputDataFilename cfg) # Log_info (brackets_msg m (length gv)) #
              fst (compute_range env cfg gv (intrinsic_w env intr) (intrinsic_h env intr)),
            snd (compute_range env cfg gv (intrinsic_w env intr) (intrinsic_h env intr)))"
proof -
  have "sizeOfGroups gv = [m]" using assms(4,5) by (rule sizeOfGroups_uniform)
  then have "check_groups env cfg gv (intrinsic_w env intr) (intrinsic_h env intr) =
      apfst ((#) (Log_info (brackets_msg m (length gv))))
        (compute_range env cfg gv (intrinsic_w env intr) (intrinsic_h env intr))"
    using assms(6) by (simp add: check_groups_def)
  then show ?thesis
    using assms(1,2,3)
    by (simp add: aliceVision_main_sampling_def apfst_def map_prod_def case_prod_beta)
qed

lemma process_groups_trace:
  assumes "b \<le> length gv"
      and "\<forall>i. a \<le> i \<and> i < b \<longrightarrow> is_open env (samples_filepath (outputFolder cfg) i)"
  shows "process_groups env cfg gv w h (channel_quantization (channelQuantizationPower cfg)) a b =
           (groups_trace env cfg gv w h [a..<b], Inr EXIT_SUCCESS)"
  using process_groups_all_open[OF assms] by (simp add: groups_trace_def)

lemma compute_range_accepted:
  assumes "define_range (rangeStart cfg) (rangeSize cfg) (length gv) = Some (a, m)"
      and "0 \<le> a" "0 \<le> m" "a + m \<le> int (length gv)" "length gv < 2147483648"
      and "\<forall>i<length gv. is_open env (samples_filepath (outputFolder cfg) i)"
  shows "compute_range env cfg gv w h =
           (groups_trace env cfg gv w h [nat a..<nat a + nat m], Inr EXIT_SUCCESS)"
proof -
  have s: "a + m < 2147483648" using assms(4,5) by linarith
  have b: "size_t a = nat a" "size_t (int32 (a + m)) = nat a + nat m"
    using loop_bounds[OF assms(2) assms(3) s] by simp_all
  have "nat a + nat m \<le> length gv" using assms by linarith
  then have "process_groups env cfg gv w h (channel_quantization (channelQuantizationPower cfg))
               (nat a) (nat a + nat m) =
             (groups_trace env cfg gv w h [nat a..<nat a + nat m], Inr EXIT_SUCCESS)"
    using assms(6) by (intro process_groups_trace) auto
  then show ?thesis using assms(1) b by (simp add: compute_range_def)
qed

lemma compute_range_rejected:
  assumes "define_range (rangeStart cfg) (rangeSize cfg) (length gv) = None"
  shows "compute_range env cfg gv w h = ([Log_error ''Range is incorrect''], Inr EXIT_FAILURE)"
  using assms by (simp add: compute_range_def)

lemma written_files_groups_trace:
  assumes "\<forall>i\<in>set idxs. i < length gv \<and> is_open env (samples_filepath (outputFolder cfg) i)"
  shows "written_files (groups_trace env cfg gv w h idxs) = map (samples_filepath (outputFolder cfg)) idxs"
  using assms
proof (induction idxs)
  case Nil
  then show ?case by (simp add: groups_trace_def)
next
  case (Cons i idxs)
  then have "written_files (groups_trace env cfg gv w h idxs) = map (samples_filepath (outputFolder cfg)) idxs"
    by simp
  moreover have "written_files (fst (process_group env cfg gv w h
      (channel_quantization (channelQuantizationPower cfg)) i)) = [samples_filepath (outputFolder cfg) i]"
    using Cons.prems by (intro fst_process_group_written) auto
  ultimately show ?case by (simp add: groups_trace_def)
qed

subsection \<open>Facts about the example runs\<close>

lemma example_env_sel:
  "Load (example_env g b) f = Some example_scene"
  "estimateBracketsFromSfmData (example_env g b) s n = Some g"
  "is_open (example_env g b) p"
  "intrinsic_w (example_env g b) = fst"
  "intrinsic_h (example_env g b) = snd"
  "write_sample (example_env g b) = write_ImageSample"
  "extractSamplesFromImages (example_env g b) ps es w h q pa =
     (if hd ps = b then (False, []) else (True, [one_sample]))"
  by (simp_all add: example_env_def)

lemma example_scene_intrinsics: "intrinsics example_scene = [(0, (4000, 3000))]"
  by (simp add: example_scene_def)

lemma example_cfg_sel:
  "sfmInputDataFilename (example_cfg a m) = ''in.sfm''"
  "outputFolder (example_cfg a m) = ''out''"
  "rangeStart (example_cfg a m) = a"
  "rangeSize (example_cfg a m) = m"
  "channelQuantizationPower (example_cfg a m) = 10"
  by (simp_all add: example_cfg_def)

subsection \<open>Runs without multi-bracketing\<close>

text \<open>
  Claim C10. When the scene loads with its single intrinsic, bracket estimation
  succeeds and every exposure group of the (non-empty) grouping holds exactly one
  bracket, the run logs "No multi-bracketing." and returns \<open>EXIT_SUCCESS\<close> right
  after the grouping: the trace holds the load and that message only, so no samples
  file is written.
\<close>
theorem single_bracket_groups_exit_success:
  assumes "Load env (sfmInputDataFilename cfg) = Some sfmData"
      and "length (intrinsics sfmData) = 1"
      and "estimateBracketsFromSfmData env sfmData (nbBrackets cfg) = Some groupedViews"
      and "groupedViews \<noteq> []"
      and "\<forall>g\<in>set groupedViews. length g = 1"
  shows "aliceVision_main_sampling env cfg =
           ([Load_SfMData (sfmInputDataFilename cfg), Log_info ''No multi-bracketing.''],
            Inr EXIT_SUCCESS)
         \<and> written_files (fst (aliceVision_main_sampling env cfg)) = []"
proof -
  obtain k intr where i: "intrinsics sfmData = [(k, intr)]"
    using assms(2) by (cases "intrinsics sfmData") auto
  have "sizeOfGroups groupedViews = [1]"
    using assms(4,5) by (rule sizeOfGroups_uniform)
  then have "check_groups env cfg groupedViews (intrinsic_w env intr) (intrinsic_h env intr)
             = ([Log_info ''No multi-bracketing.''], Inr EXIT_SUCCESS)"
    by (simp add: check_groups_def)
  then have "aliceVision_main_sampling env cfg =
           ([Load_SfMData (sfmInputDataFilename cfg), Log_info ''No multi-bracketing.''],
            Inr EXIT_SUCCESS)"
    using assms(1,3) i by (simp add: aliceVision_main_sampling_def)
  then show ?thesis by simp
qed

theorem single_bracket_groups_exit_success_witness:
  "aliceVision_main_sampling (example_env groups_single ''none'') (example_cfg (- 1) 1) =
     ([Load_SfMData ''in.sfm'', Log_info ''No multi-bracketing.''], Inr EXIT_SUCCESS)
   \<and> written_files (fst (aliceVision_main_sampling (example_env groups_single ''none'')
                            (example_cfg (- 1) 1))) = []"
proof -
  have g: "groups_single \<noteq> []" "\<forall>g\<in>set groups_single. length g = 1"
    by (simp_all add: groups_single_def)
  have i: "length (intrinsics example_scene) = 1" by (simp add: example_scene_intrinsics)
  show ?thesis
    using single_bracket_groups_exit_success
            [of "example_env groups_single ''none''" "example_cfg (- 1) 1" example_scene groups_single,
             OF example_env_sel(1) i example_env_sel(2) g]
    by (simp add: example_cfg_sel)
qed

subsection \<open>Inconsistent group sizes\<close>

text \<open>
  Claim C5. When two exposure groups of the estimated grouping differ in their number
  of brackets, the run returns \<open>EXIT_FAILURE\<close> and its trace holds no written samples
  file.
\<close>
theorem inconsistent_groups_fail:
  assumes "Load env (sfmInputDataFilename cfg) = Some sfmData"
      and "intrinsics sfmData \<noteq> []"
      and "estimateBracketsFromSfmData env sfmData (nbBrackets cfg) = Some groupedViews"
      and "g1 \<in> set groupedViews" and "g2 \<in> set groupedViews"
      and "length g1 \<noteq> length g2"
  shows "snd (aliceVision_main_sampling env cfg) = Inr EXIT_FAILURE
         \<and> written_files (fst (aliceVision_main_sampling env cfg)) = []"
proof -
  have n: "length (sizeOfGroups groupedViews) \<noteq> 1"
    using assms(4,5,6) by (rule sizeOfGroups_inconsistent)
  then have c: "\<And>w h. check_groups env cfg groupedViews w h =
      ([Log_error ''Exposure groups do not have a consistent number of brackets.''], Inr EXIT_FAILURE)"
    by (simp add: check_groups_def)
  show ?thesis
    using assms(1,2,3) c
    by (auto simp: aliceVision_main_sampling_def split: list.splits)
qed

theorem inconsistent_groups_fail_witness:
  "snd (aliceVision_main_sampling (example_env groups_mixed ''none'') (example_cfg 0 1)) = Inr EXIT_FAILURE
   \<and> written_files (fst (aliceVision_main_sampling (example_env groups_mixed ''none'')
                            (example_cfg 0 1))) = []"
proof -
  have g: "[bracket ''a0.jpg'' 1, bracket ''a1.jpg'' 2] \<in> set groups_mixed"
          "[bracket ''b0.jpg'' 1] \<in> set groups_mixed"
          "length [bracket ''a0.jpg'' 1, bracket ''a1.jpg'' 2] \<noteq> length [bracket ''b0.jpg'' 1]"
    by (simp_all add: groups_mixed_def)
  have i: "intrinsics example_scene \<noteq> []" by (simp add: example_scene_intrinsics)
  show ?thesis
    using inconsistent_groups_fail
            [of "example_env groups_mixed ''none''" "example_cfg 0 1" example_scene groups_mixed,
             OF example_env_sel(1) i example_env_sel(2) g]
    by simp
qed

subsection \<open>Evaluating the example runs\<close>

lemma example_process_group:
  "process_group (example_env groups_2x2 b) (example_cfg a m) groups_2x2 w h q 0 =
     (Log_info ''Extracting samples from group 0'' #
      (if b = ''a0.jpg'' then [Log_error ''Error while extracting samples from group 0''] else []) @
      [Write_file ''out/0_samples.dat''
         (samples_bytes write_ImageSample (if b = ''a0.jpg'' then [] else [one_sample]))], None)"
  "process_group (example_env groups_2x2 b) (example_cfg a m) groups_2x2 w h q (Suc 0) =
     (Log_info ''Extracting samples from group 1'' #
      (if b = ''b0.jpg'' then [Log_error ''Error while extracting samples from group 1''] else []) @
      [Write_file ''out/1_samples.dat''
         (samples_bytes write_ImageSample (if b = ''b0.jpg'' then [] else [one_sample]))], None)"
  by (simp_all add: process_group_def example_env_sel example_cfg_sel groups_2x2_def bracket_def
        extracting_msg_def extract_error_msg_def to_string.simps digit_char_def
        samples_filepath_def path_append_def)

lemma le_bytes_numeral:
  "le_bytes (numeral k) v = of_nat (v mod 256) # le_bytes (pred_numeral k) (v div 256)"
  by (metis le_bytes.simps(2) numeral_eq_Suc)

lemma example_samples_bytes:
  "samples_bytes write_ImageSample [] = [0, 0, 0, 0, 0, 0, 0, 0]"
  "samples_bytes write_ImageSample [one_sample] =
     [1, 0, 0, 0, 0, 0, 0, 0, 3, 0, 0, 0, 0, 0, 0, 0, 5, 0, 0, 0, 0, 0, 0, 0, 63, 0, 0, 0]"
  by (simp_all add: samples_bytes_def write_size_t_def size_t_def write_ImageSample_def
        one_sample_def le_bytes_numeral)

lemma groups_2x2_uniform: "groups_2x2 \<noteq> []" "\<forall>g\<in>set groups_2x2. length g = 2" "length groups_2x2 = 2"
  by (simp_all add: groups_2x2_def)

lemma example_brackets_msg:
  "brackets_msg 2 2 = ''Number of brackets automatically detected: 2. It will generate 2 hdr images.''"
  by (simp add: brackets_msg_def to_string.simps digit_char_def)

lemma example_main_2x2:
  "aliceVision_main_sampling (example_env groups_2x2 b) (example_cfg a m) =
     (Load_SfMData ''in.sfm'' #
      Log_info ''Number of brackets automatically detected: 2. It will generate 2 hdr images.'' #
      fst (compute_range (example_env groups_2x2 b) (example_cfg a m) groups_2x2 4000 3000),
      snd (compute_range (example_env groups_2x2 b) (example_cfg a m) groups_2x2 4000 3000))"
  using main_multi_bracket[of "example_env groups_2x2 b" "example_cfg a m" example_scene 0 "(4000, 3000)"
          groups_2x2 2, OF example_env_sel(1) example_scene_intrinsics example_env_sel(2)
          groups_2x2_uniform(1,2)]
  by (simp add: example_cfg_sel example_env_sel example_brackets_msg groups_2x2_uniform(3))


lemma example_compute_range:
  assumes "define_range a m 2 = Some (a', m')" "0 \<le> a'" "0 \<le> m'" "a' + m' \<le> 2"
  shows "compute_range (example_env groups_2x2 b) (example_cfg a m) groups_2x2 w h =
           (groups_trace (example_env groups_2x2 b) (example_cfg a m) groups_2x2 w h
              [nat a'..<nat a' + nat m'], Inr EXIT_SUCCESS)"
  using assms
  by (intro compute_range_accepted) (simp_all add: example_cfg_sel example_env_sel groups_2x2_uniform(3))

lemma example_groups_trace:
  "groups_trace (example_env groups_2x2 b) (example_cfg a m) groups_2x2 w h [0, Suc 0] =
     fst (process_group (example_env groups_2x2 b) (example_cfg a m) groups_2x2 w h 1024 0) @
     fst (process_group (example_env groups_2x2 b) (example_cfg a m) groups_2x2 w h 1024 (Suc 0))"
  "groups_trace (example_env groups_2x2 b) (example_cfg a m) groups_2x2 w h [Suc 0] =
     fst (process_group (example_env groups_2x2 b) (example_cfg a m) groups_2x2 w h 1024 (Suc 0))"
  by (simp_all add: groups_trace_def example_cfg_sel channel_quantization_def)

subsection \<open>The range of groups\<close>

text \<open>
  Claim C9, as stated, says that a negative \<open>rangeSize\<close> makes the run fail before
  any group is processed. The range check of lines 172 to 177 is only made when
  \<open>rangeStart\<close> is not \<open>-1\<close>: with the default \<open>rangeStart = -1\<close> the given
  \<open>rangeSize\<close> is overwritten by the number of groups. Here \<open>rangeSize = -5\<close>, and
  both groups are processed and the run succeeds.
\<close>
theorem negative_rangeSize_with_default_rangeStart_counterexample:
  "rangeSize (example_cfg (- 1) (- 5)) < 0 \<and>
   aliceVision_main_sampling (example_env groups_2x2 ''none'') (example_cfg (- 1) (- 5)) =
     ([Load_SfMData ''in.sfm'',
       Log_info ''Number of brackets automatically detected: 2. It will generate 2 hdr images.'',
       Log_info ''Extracting samples from group 0'',
       Write_file ''out/0_samples.dat''
         [1, 0, 0, 0, 0, 0, 0, 0, 3, 0, 0, 0, 0, 0, 0, 0, 5, 0, 0, 0, 0, 0, 0, 0, 63, 0, 0, 0],
       Log_info ''Extracting samples from group 1'',
       Write_file ''out/1_samples.dat''
         [1, 0, 0, 0, 0, 0, 0, 0, 3, 0, 0, 0, 0, 0, 0, 0, 5, 0, 0, 0, 0, 0, 0, 0, 63, 0, 0, 0]],
      Inr EXIT_SUCCESS)"
proof -
  have d: "define_range (- 1) (- 5) 2 = Some (0, 2)"
    using define_range_default[of 2 "- 5"] by simp
  have "compute_range (example_env groups_2x2 ''none'') (example_cfg (- 1) (- 5)) groups_2x2 4000 3000 =
          (groups_trace (example_env groups_2x2 ''none'') (example_cfg (- 1) (- 5)) groups_2x2 4000 3000
             [0, Suc 0], Inr EXIT_SUCCESS)"
    using example_compute_range[OF d] by (simp add: upt_conv_Cons)
  then show ?thesis
    by (simp add: example_main_2x2 example_groups_trace example_process_group example_samples_bytes
          example_cfg_sel)
qed

text \<open>
  Claim C9, amended. For a run that reaches the range computation (the scene loads with
  one intrinsic, the grouping is non-empty with a common bracket count other than one),
  with fewer than \<open>2^31\<close> groups, 32-bit \<open>rangeStart\<close> and \<open>rangeSize\<close>, and
  output files that can be opened:
  \<^item> with \<open>rangeStart = -1\<close> the loop body runs for every group, in order;
  \<^item> with \<open>0 \<le> rangeStart \<le> groupCount\<close> and \<open>0 \<le> rangeSize\<close> it runs for exactly
    \<open>min rangeSize (groupCount - rangeStart)\<close> groups starting at \<open>rangeStart\<close>;
  \<^item> with \<open>rangeStart \<noteq> -1\<close> and (\<open>rangeStart > groupCount\<close> or \<open>rangeSize < 0\<close>)
    the run logs "Range is incorrect" and returns \<open>EXIT_FAILURE\<close> without running the
    loop body at all.
\<close>
theorem range_selection:
  assumes "Load env (sfmInputDataFilename cfg) = Some sfmData"
      and "intrinsics sfmData = [(k, intr)]"
      and "estimateBracketsFromSfmData env sfmData (nbBrackets cfg) = Some gv"
      and "gv \<noteq> []" and "\<forall>g\<in>set gv. length g = m" and "m \<noteq> 1"
      and "length gv < 2147483648"
      and "- 2147483648 \<le> rangeStart cfg" and "rangeStart cfg < 2147483648"
      and "- 2147483648 \<le> rangeSize cfg" and "rangeSize cfg < 2147483648"
      and "\<forall>i<length gv. is_open env (samples_filepath (outputFolder cfg) i)"
  shows "(rangeStart cfg = - 1 \<longrightarrow>
            aliceVision_main_sampling env cfg =
              (Load_SfMData (sfmInputDataFilename cfg) # Log_info (brackets_msg m (length gv)) #
                 groups_trace env cfg gv (intrinsic_w env intr) (intrinsic_h env intr) [0..<length gv],
               Inr EXIT_SUCCESS))
       \<and> (0 \<le> rangeStart cfg \<and> rangeStart cfg \<le> int (length gv) \<and> 0 \<le> rangeSize cfg \<longrightarrow>
            aliceVision_main_sampling env cfg =
              (Load_SfMData (sfmInputDataFilename cfg) # Log_info (brackets_msg m (length gv)) #
                 groups_trace env cfg gv (intrinsic_w env intr) (intrinsic_h env intr)
                   [nat (rangeStart cfg) ..<
                    nat (rangeStart cfg) + min (nat (rangeSize cfg)) (length gv - nat (rangeStart cfg))],
               Inr EXIT_SUCCESS))
       \<and> (rangeStart cfg \<noteq> - 1 \<and> (int (length gv) < rangeStart cfg \<or> rangeSize cfg < 0) \<longrightarrow>
            aliceVision_main_sampling env cfg =
              ([Load_SfMData (sfmInputDataFilename cfg), Log_info (brackets_msg m (length gv)),
                Log_error ''Range is incorrect''],
               Inr EXIT_FAILURE))"
proof (intro conjI impI)
  note main = main_multi_bracket[OF assms(1-6)]
  {
    assume "rangeStart cfg = - 1"
    then have "define_range (rangeStart cfg) (rangeSize cfg) (length gv) = Some (0, int (length gv))"
      using define_range_default[OF assms(7)] by simp
    then have "compute_range env cfg gv (intrinsic_w env intr) (intrinsic_h env intr) =
        (groups_trace env cfg gv (intrinsic_w env intr) (intrinsic_h env intr)
           [nat 0..<nat 0 + nat (int (length gv))], Inr EXIT_SUCCESS)"
      using assms(7,12) by (intro compute_range_accepted) auto
    then show "aliceVision_main_sampling env cfg =
              (Load_SfMData (sfmInputDataFilename cfg) # Log_info (brackets_msg m (length gv)) #
                 groups_trace env cfg gv (intrinsic_w env intr) (intrinsic_h env intr) [0..<length gv],
               Inr EXIT_SUCCESS)"
      using main by simp
  }
  {
    assume a: "0 \<le> rangeStart cfg \<and> rangeStart cfg \<le> int (length gv) \<and> 0 \<le> rangeSize cfg"
    let ?a = "rangeStart cfg" and ?m = "min (rangeSize cfg) (int (length gv) - rangeStart cfg)"
    have "define_range ?a (rangeSize cfg) (length gv) = Some (?a, ?m)"
      using a assms(7,11) by (intro define_range_explicit) auto
    then have "compute_range env cfg gv (intrinsic_w env intr) (intrinsic_h env intr) =
        (groups_trace env cfg gv (intrinsic_w env intr) (intrinsic_h env intr)
           [nat ?a..<nat ?a + nat ?m], Inr EXIT_SUCCESS)"
      using a assms(7,12) by (intro compute_range_accepted) auto
    moreover have "nat ?m = min (nat (rangeSize cfg)) (length gv - nat (rangeStart cfg))"
      using a by (auto simp: min_def)
    ultimately show "aliceVision_main_sampling env cfg =
              (Load_SfMData (sfmInputDataFilename cfg) # Log_info (brackets_msg m (length gv)) #
                 groups_trace env cfg gv (intrinsic_w env intr) (intrinsic_h env intr)
                   [nat (rangeStart cfg) ..<
                    nat (rangeStart cfg) + min (nat (rangeSize cfg)) (length gv - nat (rangeStart cfg))],
               Inr EXIT_SUCCESS)"
      using main by simp
  }
  {
    assume r: "rangeStart cfg \<noteq> - 1 \<and> (int (length gv) < rangeStart cfg \<or> rangeSize cfg < 0)"
    then have "define_range (rangeStart cfg) (rangeSize cfg) (length gv) = None"
      using assms(8,9) by (intro define_range_rejected) auto
    then have "compute_range env cfg gv (intrinsic_w env intr) (intrinsic_h env intr) =
        ([Log_error ''Range is incorrect''], Inr EXIT_FAILURE)"
      by (rule compute_range_rejected)
    then show "aliceVision_main_sampling env cfg =
              ([Load_SfMData (sfmInputDataFilename cfg), Log_info (brackets_msg m (length gv)),
                Log_error ''Range is incorrect''],
               Inr EXIT_FAILURE)"
      using main by simp
  }
qed


theorem range_selection_witness:
  "aliceVision_main_sampling (example_env groups_2x2 ''none'') (example_cfg (- 1) 1) =
     ([Load_SfMData ''in.sfm'',
       Log_info ''Number of brackets automatically detected: 2. It will generate 2 hdr images.'',
       Log_info ''Extracting samples from group 0'',
       Write_file ''out/0_samples.dat''
         [1, 0, 0, 0, 0, 0, 0, 0, 3, 0, 0, 0, 0, 0, 0, 0, 5, 0, 0, 0, 0, 0, 0, 0, 63, 0, 0, 0],
       Log_info ''Extracting samples from group 1'',
       Write_file ''out/1_samples.dat''
         [1, 0, 0, 0, 0, 0, 0, 0, 3, 0, 0, 0, 0, 0, 0, 0, 5, 0, 0, 0, 0, 0, 0, 0, 63, 0, 0, 0]],
      Inr EXIT_SUCCESS)
   \<and> aliceVision_main_sampling (example_env groups_2x2 ''none'') (example_cfg 1 5) =
     ([Load_SfMData ''in.sfm'',
       Log_info ''Number of brackets automatically detected: 2. It will generate 2 hdr images.'',
       Log_info ''Extracting samples from group 1'',
       Write_file ''out/1_samples.dat''
         [1, 0, 0, 0, 0, 0, 0, 0, 3, 0, 0, 0, 0, 0, 0, 0, 5, 0, 0, 0, 0, 0, 0, 0, 63, 0, 0, 0]],
      Inr EXIT_SUCCESS)
   \<and> aliceVision_main_sampling (example_env groups_2x2 ''none'') (example_cfg 3 1) =
     ([Load_SfMData ''in.sfm'',
       Log_info ''Number of brackets automatically detected: 2. It will generate 2 hdr images.'',
       Log_error ''Range is incorrect''],
      Inr EXIT_FAILURE)"
proof -
  note facts = example_env_sel example_cfg_sel example_scene_intrinsics groups_2x2_uniform
    example_brackets_msg example_groups_trace example_process_group example_samples_bytes
  have a: "aliceVision_main_sampling (example_env groups_2x2 ''none'') (example_cfg (- 1) 1) =
     ([Load_SfMData ''in.sfm'',
       Log_info ''Number of brackets automatically detected: 2. It will generate 2 hdr images.'',
       Log_info ''Extracting samples from group 0'',
       Write_file ''out/0_samples.dat''
         [1, 0, 0, 0, 0, 0, 0, 0, 3, 0, 0, 0, 0, 0, 0, 0, 5, 0, 0, 0, 0, 0, 0, 0, 63, 0, 0, 0],
       Log_info ''Extracting samples from group 1'',
       Write_file ''out/1_samples.dat''
         [1, 0, 0, 0, 0, 0, 0, 0, 3, 0, 0, 0, 0, 0, 0, 0, 5, 0, 0, 0, 0, 0, 0, 0, 63, 0, 0, 0]],
      Inr EXIT_SUCCESS)"
    using range_selection[of "example_env groups_2x2 ''none''" "example_cfg (- 1) 1" example_scene
            0 "(4000, 3000)" groups_2x2 2]
    by (simp add: facts upt_conv_Cons)
  have b: "aliceVision_main_sampling (example_env groups_2x2 ''none'') (example_cfg 1 5) =
     ([Load_SfMData ''in.sfm'',
       Log_info ''Number of brackets automatically detected: 2. It will generate 2 hdr images.'',
       Log_info ''Extracting samples from group 1'',
       Write_file ''out/1_samples.dat''
         [1, 0, 0, 0, 0, 0, 0, 0, 3, 0, 0, 0, 0, 0, 0, 0, 5, 0, 0, 0, 0, 0, 0, 0, 63, 0, 0, 0]],
      Inr EXIT_SUCCESS)"
    using range_selection[of "example_env groups_2x2 ''none''" "example_cfg 1 5" example_scene
            0 "(4000, 3000)" groups_2x2 2]
    by (simp add: facts upt_conv_Cons)
  have c: "aliceVision_main_sampling (example_env groups_2x2 ''none'') (example_cfg 3 1) =
     ([Load_SfMData ''in.sfm'',
       Log_info ''Number of brackets automatically detected: 2. It will generate 2 hdr images.'',
       Log_error ''Range is incorrect''],
      Inr EXIT_FAILURE)"
    using range_selection[of "example_env groups_2x2 ''none''" "example_cfg 3 1" example_scene
            0 "(4000, 3000)" groups_2x2 2]
    by (simp add: facts)
  from a b c show ?thesis by simp
qed

lemma set_groups_trace:
  "set (groups_trace env cfg gv w h idxs) =
     (\<Union>i\<in>set idxs. set (fst (process_group env cfg gv w h
                                  (channel_quantization (channelQuantizationPower cfg)) i)))"
  by (simp add: groups_trace_def)

lemma process_group_failed_extraction:
  assumes "i < length gv" and "is_open env (samples_filepath (outputFolder cfg) i)"
      and "extractSamplesFromImages env (map imagePath (gv ! i)) (map cameraExposureSetting (gv ! i))
             w h cq (params cfg) = (False, out_samples)"
  shows "process_group env cfg gv w h cq i =
           ([Log_info (extracting_msg i), Log_error (extract_error_msg i),
             Write_file (samples_filepath (outputFolder cfg) i)
               (samples_bytes (write_sample env) out_samples)], None)"
  using assms by (simp add: process_group_def)

subsection \<open>A failed sample extraction\<close>

text \<open>
  Claim C3, amended. In the loop over the groups \<open>groupIdx \<le> j < bound\<close> of the range
  (all within the grouping, their output files openable), when the extraction of
  group \<open>i\<close> fails, the error is logged, the samples file of group \<open>i\<close> is written
  all the same (holding what the extraction left in \<open>out_samples\<close>), and the loop goes
  on: one file is written for every group of the range and the loop ends with
  \<open>EXIT_SUCCESS\<close>.
\<close>
theorem failed_extraction_is_logged_and_loop_continues:
  assumes "bound \<le> length gv"
      and "\<forall>j. groupIdx \<le> j \<and> j < bound \<longrightarrow> is_open env (samples_filepath (outputFolder cfg) j)"
      and "groupIdx \<le> i" and "i < bound"
      and "extractSamplesFromImages env (map imagePath (gv ! i)) (map cameraExposureSetting (gv ! i))
             w h (channel_quantization (channelQuantizationPower cfg)) (params cfg) = (False, out_samples)"
  shows "snd (process_groups env cfg gv w h (channel_quantization (channelQuantizationPower cfg))
                groupIdx bound) = Inr EXIT_SUCCESS
       \<and> written_files (fst (process_groups env cfg gv w h
                (channel_quantization (channelQuantizationPower cfg)) groupIdx bound)) =
           map (samples_filepath (outputFolder cfg)) [groupIdx..<bound]
       \<and> Log_error (extract_error_msg i) \<in> set (fst (process_groups env cfg gv w h
                (channel_quantization (channelQuantizationPower cfg)) groupIdx bound))
       \<and> Write_file (samples_filepath (outputFolder cfg) i) (samples_bytes (write_sample env) out_samples)
            \<in> set (fst (process_groups env cfg gv w h
                (channel_quantization (channelQuantizationPower cfg)) groupIdx bound))"
proof -
  have t: "process_groups env cfg gv w h (channel_quantization (channelQuantizationPower cfg))
             groupIdx bound = (groups_trace env cfg gv w h [groupIdx..<bound], Inr EXIT_SUCCESS)"
    using assms(1,2) by (rule process_groups_trace)
  have w: "written_files (groups_trace env cfg gv w h [groupIdx..<bound]) =
             map (samples_filepath (outputFolder cfg)) [groupIdx..<bound]"
    using assms(1,2) by (intro written_files_groups_trace) auto
  have i: "i < length gv" "is_open env (samples_filepath (outputFolder cfg) i)"
    using assms(1-4) by auto
  have b: "process_group env cfg gv w h (channel_quantization (channelQuantizationPower cfg)) i =
           ([Log_info (extracting_msg i), Log_error (extract_error_msg i),
             Write_file (samples_filepath (outputFolder cfg) i)
               (samples_bytes (write_sample env) out_samples)], None)"
    using i assms(5) by (rule process_group_failed_extraction)
  have m: "i \<in> set [groupIdx..<bound]" using assms(3,4) by simp
  have "Log_error (extract_error_msg i) \<in> set (groups_trace env cfg gv w h [groupIdx..<bound])"
       "Write_file (samples_filepath (outputFolder cfg) i) (samples_bytes (write_sample env) out_samples)
          \<in> set (groups_trace env cfg gv w h [groupIdx..<bound])"
    unfolding set_groups_trace using m b by (auto intro!: bexI[of _ i])
  then show ?thesis using t w by simp
qed


theorem failed_extraction_is_logged_and_loop_continues_witness:
  "snd (process_groups (example_env groups_2x2 ''a0.jpg'') (example_cfg 0 2) groups_2x2 4000 3000
          (channel_quantization (channelQuantizationPower (example_cfg 0 2))) 0 2) = Inr EXIT_SUCCESS
   \<and> written_files (fst (process_groups (example_env groups_2x2 ''a0.jpg'') (example_cfg 0 2) groups_2x2
          4000 3000 (channel_quantization (channelQuantizationPower (example_cfg 0 2))) 0 2)) =
       [''out/0_samples.dat'', ''out/1_samples.dat'']
   \<and> Log_error ''Error while extracting samples from group 0''
       \<in> set (fst (process_groups (example_env groups_2x2 ''a0.jpg'') (example_cfg 0 2) groups_2x2
          4000 3000 (channel_quantization (channelQuantizationPower (example_cfg 0 2))) 0 2))
   \<and> Write_file ''out/0_samples.dat'' [0, 0, 0, 0, 0, 0, 0, 0]
       \<in> set (fst (process_groups (example_env groups_2x2 ''a0.jpg'') (example_cfg 0 2) groups_2x2
          4000 3000 (channel_quantization (channelQuantizationPower (example_cfg 0 2))) 0 2))"
proof -
  have e: "extractSamplesFromImages (example_env groups_2x2 ''a0.jpg'')
             (map imagePath (groups_2x2 ! 0)) (map cameraExposureSetting (groups_2x2 ! 0)) 4000 3000
             (channel_quantization (channelQuantizationPower (example_cfg 0 2)))
             (params (example_cfg 0 2)) = (False, [])"
    by (simp add: example_env_sel groups_2x2_def bracket_def)
  have o: "\<forall>j. 0 \<le> j \<and> j < 2 \<longrightarrow>
             is_open (example_env groups_2x2 ''a0.jpg'') (samples_filepath (outputFolder (example_cfg 0 2)) j)"
    by (simp add: example_env_sel)
  have l: "2 \<le> length groups_2x2" by (simp add: groups_2x2_uniform)
  show ?thesis
    using failed_extraction_is_logged_and_loop_continues[OF l o _ _ e]
    by (simp add: example_env_sel example_cfg_sel example_samples_bytes upt_conv_Cons
          samples_filepath_def path_append_def extract_error_msg_def to_string.simps digit_char_def)
qed

text \<open>
  Claim C3, as stated, says the output file of a group whose extraction failed is
  skipped. Lines 207 to 210 only log the failure; the code then opens and writes the
  samples file. In this run the extraction of group 0 fails, and
  \<^verbatim>\<open>out/0_samples.dat\<close> is written (with a count of zero).
\<close>
theorem failed_extraction_still_writes_file_counterexample:
  "extractSamplesFromImages (example_env groups_2x2 ''a0.jpg'')
     (map imagePath (groups_2x2 ! 0)) (map cameraExposureSetting (groups_2x2 ! 0)) 4000 3000 1024
     (params (example_cfg 0 2)) = (False, [])
   \<and> aliceVision_main_sampling (example_env groups_2x2 ''a0.jpg'') (example_cfg 0 2) =
     ([Load_SfMData ''in.sfm'',
       Log_info ''Number of brackets automatically detected: 2. It will generate 2 hdr images.'',
       Log_info ''Extracting samples from group 0'',
       Log_error ''Error while extracting samples from group 0'',
       Write_file ''out/0_samples.dat'' [0, 0, 0, 0, 0, 0, 0, 0],
       Log_info ''Extracting samples from group 1'',
       Write_file ''out/1_samples.dat''
         [1, 0, 0, 0, 0, 0, 0, 0, 3, 0, 0, 0, 0, 0, 0, 0, 5, 0, 0, 0, 0, 0, 0, 0, 63, 0, 0, 0]],
      Inr EXIT_SUCCESS)"
proof -
  have e: "extractSamplesFromImages (example_env groups_2x2 ''a0.jpg'')
     (map imagePath (groups_2x2 ! 0)) (map cameraExposureSetting (groups_2x2 ! 0)) 4000 3000 1024
     (params (example_cfg 0 2)) = (False, [])"
    by (simp add: example_env_sel groups_2x2_def bracket_def)
  have d: "define_range 0 2 2 = Some (0, 2)"
    using define_range_explicit[of 0 2 2] by simp
  have "compute_range (example_env groups_2x2 ''a0.jpg'') (example_cfg 0 2) groups_2x2 4000 3000 =
          (groups_trace (example_env groups_2x2 ''a0.jpg'') (example_cfg 0 2) groups_2x2 4000 3000
             [0, Suc 0], Inr EXIT_SUCCESS)"
    using example_compute_range[OF d] by (simp add: upt_conv_Cons)
  then have "aliceVision_main_sampling (example_env groups_2x2 ''a0.jpg'') (example_cfg 0 2) =
     ([Load_SfMData ''in.sfm'',
       Log_info ''Number of brackets automatically detected: 2. It will generate 2 hdr images.'',
       Log_info ''Extracting samples from group 0'',
       Log_error ''Error while extracting samples from group 0'',
       Write_file ''out/0_samples.dat'' [0, 0, 0, 0, 0, 0, 0, 0],
       Log_info ''Extracting samples from group 1'',
       Write_file ''out/1_samples.dat''
         [1, 0, 0, 0, 0, 0, 0, 0, 3, 0, 0, 0, 0, 0, 0, 0, 5, 0, 0, 0, 0, 0, 0, 0, 63, 0, 0, 0]],
      Inr EXIT_SUCCESS)"
    by (simp add: example_main_2x2 example_groups_trace example_process_group example_samples_bytes)
  with e show ?thesis by simp
qed

subsection \<open>The samples file round trip\<close>

lemma length_le_bytes [simp]: "length (le_bytes k v) = k"
  by (induction k arbitrary: v) auto

lemma le_value_le_bytes: "le_value (le_bytes k v) = v mod 256 ^ k"
proof (induction k arbitrary: v)
  case 0
  then show ?case by simp
next
  case (Suc k)
  have "unat (of_nat (v mod 256) :: byte) = v mod 256"
    by (simp add: unat_of_nat)
  then have "le_value (le_bytes (Suc k) v) = v mod 256 + 256 * ((v div 256) mod 256 ^ k)"
    using Suc.IH by simp
  also have "\<dots> = v mod 256 ^ Suc k"
    by (simp add: mod_mult2_eq)
  finally show ?case .
qed

lemma read_records_concat:
  assumes "\<forall>s\<in>set xs. length (enc s) = len \<and> dec (enc s) = Some s"
  shows "read_records dec len (length xs) (concat (map enc xs) @ rest) = Some xs"
  using assms by (induction xs) auto

lemma le_value_write_size_t:
  assumes "n < 18446744073709551616"
  shows "le_value (write_size_t n) = n"
proof -
  have "size_t (int n) = n" using assms by (simp add: size_t_nonneg)
  then show ?thesis using assms by (simp add: write_size_t_def le_value_le_bytes)
qed

lemma samples_bytes_round_trip:
  assumes "\<forall>s\<in>set samples. length (enc s) = len \<and> dec (enc s) = Some s"
      and "length samples < 18446744073709551616"
  shows "le_value (take 8 (samples_bytes enc samples)) = length samples"
    and "length (samples_bytes enc samples) = 8 + len * length samples"
    and "read_samples dec len (samples_bytes enc samples) = Some samples"
proof -
  have l: "length (write_size_t (length samples)) = 8" by (simp add: write_size_t_def)
  have t: "take 8 (samples_bytes enc samples) = write_size_t (length samples)"
    and d: "drop 8 (samples_bytes enc samples) = concat (map enc samples)"
    using l by (simp_all add: samples_bytes_def)
  have v: "le_value (write_size_t (length samples)) = length samples"
    using assms(2) by (rule le_value_write_size_t)
  have c: "length (concat (map enc samples)) = len * length samples"
    using assms(1) by (induction samples) auto
  have r: "read_records dec len (length samples) (concat (map enc samples)) = Some samples"
    using read_records_concat[OF assms(1), of "[]"] by simp
  show "le_value (take 8 (samples_bytes enc samples)) = length samples"
    using t v by simp
  show "length (samples_bytes enc samples) = 8 + len * length samples"
    using l c by (simp add: samples_bytes_def)
  show "read_samples dec len (samples_bytes enc samples) = Some samples"
    using l t d v r by (simp add: read_samples_def samples_bytes_def)
qed

lemma written_contents_append [simp]:
  "written_contents (a @ b) = written_contents a @ written_contents b"
  by (induction a rule: written_contents.induct) auto

lemma process_group_written_contents:
  assumes "i < length gv" and "is_open env (samples_filepath (outputFolder cfg) i)"
  shows "written_contents (fst (process_group env cfg gv w h
           (channel_quantization (channelQuantizationPower cfg)) i)) =
         [(samples_filepath (outputFolder cfg) i,
           samples_bytes (write_sample env) (out_samples_of env cfg gv w h i))]"
  using assms by (simp add: process_group_def Let_def out_samples_of_def)

lemma written_contents_groups_trace:
  assumes "\<forall>i\<in>set idxs. i < length gv \<and> is_open env (samples_filepath (outputFolder cfg) i)"
  shows "written_contents (groups_trace env cfg gv w h idxs) =
           map (\<lambda>i. (samples_filepath (outputFolder cfg) i,
                     samples_bytes (write_sample env) (out_samples_of env cfg gv w h i))) idxs"
  using assms
proof (induction idxs)
  case Nil
  then show ?case by (simp add: groups_trace_def)
next
  case (Cons i idxs)
  then have "written_contents (groups_trace env cfg gv w h idxs) =
           map (\<lambda>i. (samples_filepath (outputFolder cfg) i,
                     samples_bytes (write_sample env) (out_samples_of env cfg gv w h i))) idxs"
    by simp
  moreover have "written_contents (fst (process_group env cfg gv w h
           (channel_quantization (channelQuantizationPower cfg)) i)) =
         [(samples_filepath (outputFolder cfg) i,
           samples_bytes (write_sample env) (out_samples_of env cfg gv w h i))]"
    using Cons.prems by (intro process_group_written_contents) auto
  ultimately show ?case by (simp add: groups_trace_def)
qed

lemma word64_le_round_trip: "of_nat (le_value (le_bytes 8 (unat w))) = (w :: 64 word)"
proof -
  have "unat w < 2 ^ 64" using unsigned_less[of w, where ?'a = nat] by simp
  then have "unat w mod 256 ^ 8 = unat w" by simp
  then show ?thesis by (simp add: le_value_le_bytes)
qed

lemma word32_le_round_trip: "of_nat (le_value (le_bytes 4 (unat w))) = (w :: 32 word)"
proof -
  have "unat w < 2 ^ 32" using unsigned_less[of w, where ?'a = nat] by simp
  then have "unat w mod 256 ^ 4 = unat w" by simp
  then show ?thesis by (simp add: le_value_le_bytes)
qed

lemma ImageSample_codec:
  "length (write_ImageSample s) = 20" "read_ImageSample (write_ImageSample s) = Some s"
  by (simp_all add: write_ImageSample_def read_ImageSample_def
        word64_le_round_trip word32_le_round_trip)

text \<open>
  Claim C6. In the loop over the groups \<open>groupIdx \<le> j < bound\<close> of the range (all
  within the grouping, their output files openable), the run persists exactly one
  samples file per group, at the path of the group, and the bytes of each file are the
  eight bytes of the count of the samples extracted for that group followed by the
  records of these samples, one per sample, in the order of extraction (lines 212 to
  227). When every such record has the fixed length \<open>len\<close> and decodes to its
  sample, and the counts fit \<^verbatim>\<open>std::size_t\<close>, then for every file the run
  persisted the count read from its first eight bytes is the number of samples, its
  length is \<open>8 + len * count\<close>, and reading it back yields the very sequence of
  samples that was extracted.
\<close>
theorem persisted_samples_files_round_trip:
  assumes "bound \<le> length gv"
      and "\<forall>j. groupIdx \<le> j \<and> j < bound \<longrightarrow> is_open env (samples_filepath (outputFolder cfg) j)"
      and "\<forall>j. groupIdx \<le> j \<and> j < bound \<longrightarrow>
             length (out_samples_of env cfg gv w h j) < 18446744073709551616 \<and>
             (\<forall>s\<in>set (out_samples_of env cfg gv w h j).
                length (write_sample env s) = len \<and> dec (write_sample env s) = Some s)"
  shows "written_contents (fst (process_groups env cfg gv w h
                (channel_quantization (channelQuantizationPower cfg)) groupIdx bound)) =
           map (\<lambda>j. (samples_filepath (outputFolder cfg) j,
                     write_size_t (length (out_samples_of env cfg gv w h j)) @
                     concat (map (write_sample env) (out_samples_of env cfg gv w h j))))
             [groupIdx..<bound]
       \<and> map (\<lambda>f. (le_value (take 8 (snd f)), length (snd f), read_samples dec len (snd f)))
           (written_contents (fst (process_groups env cfg gv w h
                (channel_quantization (channelQuantizationPower cfg)) groupIdx bound))) =
           map (\<lambda>j. (length (out_samples_of env cfg gv w h j),
                     8 + len * length (out_samples_of env cfg gv w h j),
                     Some (out_samples_of env cfg gv w h j)))
             [groupIdx..<bound]"
proof -
  let ?out = "out_samples_of env cfg gv w h"
  let ?file = "\<lambda>j. (samples_filepath (outputFolder cfg) j, samples_bytes (write_sample env) (?out j))"
  have t: "process_groups env cfg gv w h (channel_quantization (channelQuantizationPower cfg))
             groupIdx bound = (groups_trace env cfg gv w h [groupIdx..<bound], Inr EXIT_SUCCESS)"
    using assms(1,2) by (rule process_groups_trace)
  have "written_contents (groups_trace env cfg gv w h [groupIdx..<bound]) =
          map ?file [groupIdx..<bound]"
    using assms(1,2) by (intro written_contents_groups_trace) auto
  then have wc: "written_contents (fst (process_groups env cfg gv w h
                   (channel_quantization (channelQuantizationPower cfg)) groupIdx bound)) =
                 map ?file [groupIdx..<bound]"
    using t by simp
  have rt: "le_value (take 8 (samples_bytes (write_sample env) (?out j))) = length (?out j) \<and>
            length (samples_bytes (write_sample env) (?out j)) = 8 + len * length (?out j) \<and>
            read_samples dec len (samples_bytes (write_sample env) (?out j)) = Some (?out j)"
    if "j \<in> set [groupIdx..<bound]" for j
  proof -
    have j: "groupIdx \<le> j \<and> j < bound" using that by simp
    have c: "\<forall>s\<in>set (?out j). length (write_sample env s) = len \<and> dec (write_sample env s) = Some s"
      and n: "length (?out j) < 18446744073709551616"
      using assms(3) j by blast+
    show ?thesis using samples_bytes_round_trip[OF c n] by simp
  qed
  have one: "written_contents (fst (process_groups env cfg gv w h
                (channel_quantization (channelQuantizationPower cfg)) groupIdx bound)) =
           map (\<lambda>j. (samples_filepath (outputFolder cfg) j,
                     write_size_t (length (?out j)) @ concat (map (write_sample env) (?out j))))
             [groupIdx..<bound]"
    using wc by (simp add: samples_bytes_def)
  have two: "map (\<lambda>f. (le_value (take 8 (snd f)), length (snd f), read_samples dec len (snd f)))
               (map ?file [groupIdx..<bound]) =
             map (\<lambda>j. (length (?out j), 8 + len * length (?out j), Some (?out j))) [groupIdx..<bound]"
    unfolding map_map by (rule map_cong[OF refl]) (simp add: rt)
  show ?thesis using one two wc by simp
qed

lemma example_out_samples:
  "out_samples_of (example_env groups_2x2 ''none'') (example_cfg a m) groups_2x2 w h 0 = [one_sample]"
  "out_samples_of (example_env groups_2x2 ''none'') (example_cfg a m) groups_2x2 w h (Suc 0) = [one_sample]"
  by (simp_all add: out_samples_of_def example_env_sel groups_2x2_def bracket_def)

theorem persisted_samples_files_round_trip_witness:
  "written_contents (fst (process_groups (example_env groups_2x2 ''none'') (example_cfg 0 2) groups_2x2
          4000 3000 (channel_quantization (channelQuantizationPower (example_cfg 0 2))) 0 2)) =
     [(''out/0_samples.dat'',
       [1, 0, 0, 0, 0, 0, 0, 0, 3, 0, 0, 0, 0, 0, 0, 0, 5, 0, 0, 0, 0, 0, 0, 0, 63, 0, 0, 0]),
      (''out/1_samples.dat'',
       [1, 0, 0, 0, 0, 0, 0, 0, 3, 0, 0, 0, 0, 0, 0, 0, 5, 0, 0, 0, 0, 0, 0, 0, 63, 0, 0, 0])]
   \<and> map (\<lambda>f. (le_value (take 8 (snd f)), length (snd f), read_samples read_ImageSample 20 (snd f)))
       (written_contents (fst (process_groups (example_env groups_2x2 ''none'') (example_cfg 0 2)
          groups_2x2 4000 3000 (channel_quantization (channelQuantizationPower (example_cfg 0 2))) 0 2))) =
     [(1, 28, Some [one_sample]), (1, 28, Some [one_sample])]"
proof -
  let ?E = "example_env groups_2x2 ''none''"
  let ?C = "example_cfg 0 2"
  have l: "2 \<le> length groups_2x2" by (simp add: groups_2x2_uniform)
  have o: "\<forall>j. 0 \<le> j \<and> j < 2 \<longrightarrow> is_open ?E (samples_filepath (outputFolder ?C) j)"
    by (simp add: example_env_sel)
  have c: "\<forall>j. 0 \<le> j \<and> j < 2 \<longrightarrow>
             length (out_samples_of ?E ?C groups_2x2 4000 3000 j) < 18446744073709551616 \<and>
             (\<forall>s\<in>set (out_samples_of ?E ?C groups_2x2 4000 3000 j).
                length (write_sample ?E s) = 20 \<and> read_ImageSample (write_sample ?E s) = Some s)"
    by (auto simp: less_2_cases_iff example_out_samples example_env_sel ImageSample_codec)
  note rt = persisted_samples_files_round_trip[OF l o c]
  have b: "write_size_t 1 @ write_ImageSample one_sample =
             [1, 0, 0, 0, 0, 0, 0, 0, 3, 0, 0, 0, 0, 0, 0, 0, 5, 0, 0, 0, 0, 0, 0, 0, 63, 0, 0, 0]"
    using example_samples_bytes(2) by (simp add: samples_bytes_def)
  have one: "written_contents (fst (process_groups ?E ?C groups_2x2 4000 3000
               (channel_quantization (channelQuantizationPower ?C)) 0 2)) =
     [(''out/0_samples.dat'',
       [1, 0, 0, 0, 0, 0, 0, 0, 3, 0, 0, 0, 0, 0, 0, 0, 5, 0, 0, 0, 0, 0, 0, 0, 63, 0, 0, 0]),
      (''out/1_samples.dat'',
       [1, 0, 0, 0, 0, 0, 0, 0, 3, 0, 0, 0, 0, 0, 0, 0, 5, 0, 0, 0, 0, 0, 0, 0, 63, 0, 0, 0])]"
    using rt[THEN conjunct1] b
    by (simp add: upt_conv_Cons example_out_samples example_env_sel example_cfg_sel
          samples_filepath_def path_append_def to_string.simps digit_char_def)
  have two: "map (\<lambda>f. (le_value (take 8 (snd f)), length (snd f), read_samples read_ImageSample 20 (snd f)))
       (written_contents (fst (process_groups ?E ?C groups_2x2 4000 3000
          (channel_quantization (channelQuantizationPower ?C)) 0 2))) =
     [(1, 28, Some [one_sample]), (1, 28, Some [one_sample])]"
    using rt[THEN conjunct2] by (simp add: upt_conv_Cons example_out_samples)
  from one two show ?thesis by (rule conjI)
qed

section \<open>Properties of the meshing driver\<close>

subsection \<open>Unsupported modes\<close>

lemma saved_files_append [simp]: "saved_files (a @ b) = saved_files a @ saved_files b"
  by (induction a rule: saved_files.induct) auto

lemma computation_events_append [simp]:
  "computation_events (a @ b) = computation_events a @ computation_events b"
  by (induction a rule: computation_events.induct) auto

lemma setup_trace_quiet [simp]:
  "saved_files (setup_trace env cfg) = []" "computation_events (setup_trace env cfg) = []"
  by (auto simp: setup_trace_def directory_events_def split: option.splits bool.splits)

lemma reconstruct_unsupported:
  assumes "partitioningMode cfg \<noteq> ePartitioningSingleBlock \<or>
           repartitionMode cfg \<noteq> eRepartitionMultiResolution"
  shows "fst (reconstruct env cfg sfmData mp m a) = []"
    and "snd (reconstruct env cfg sfmData mp m a) \<in>
           {Inl (Invalid_argument auto_not_implemented),
            Inl (Invalid_argument ''Partitioning mode is not defined''),
            Inl (Invalid_argument ''Repartition mode is not defined'')}"
  using assms
  by (auto simp: reconstruct_def split: ERepartitionMode.splits EPartitioningMode.splits)

lemma input_options_unsupported:
  assumes "partitioningMode cfg \<noteq> ePartitioningSingleBlock \<or>
           repartitionMode cfg \<noteq> eRepartitionMultiResolution"
  shows "input_options cfg =
           (if depthMapsFolder cfg = [] then None else Some (True, addLandmarksToTheDensePointCloud cfg))"
  using assms by (auto simp: input_options_def)

text \<open>
  Claim C2, amended. With partitioning \<open>auto\<close>, or an undefined partitioning or
  repartition mode, every run fails, without estimating the bounding volume, without
  any other stage of the reconstruction and without saving a file:
  \<^item> when no depth-maps folder is given, the option check of lines 265 to 281 rejects
    the run (\<open>EXIT_FAILURE\<close>) before the dataset is read;
  \<^item> when a depth-maps folder is given, the dataset is read first; if that fails the
    run returns \<open>EXIT_FAILURE\<close> for the unreadable dataset;
  \<^item> otherwise the run looks for the output directory and creates it when it is
    missing; if that throws, the run ends there with the file-system error;
  \<^item> otherwise the run logs the two modes and only then throws
    \<^verbatim>\<open>std::invalid_argument\<close> in the switch.
\<close>
theorem unsupported_modes_rejected:
  assumes "partitioningMode cfg \<noteq> ePartitioningSingleBlock \<or>
           repartitionMode cfg \<noteq> eRepartitionMultiResolution"
  shows "(depthMapsFolder cfg = [] \<longrightarrow>
            aliceVision_main_meshing env cfg =
              ([Log_error invalid_input_options_msg], Inr EXIT_FAILURE))
       \<and> (depthMapsFolder cfg \<noteq> [] \<and> Load env (sfmDataFilename cfg) = None \<longrightarrow>
            aliceVision_main_meshing env cfg =
              ([Load_SfMData (sfmDataFilename cfg),
                Log_error (cannot_be_read_msg (sfmDataFilename cfg))],
               Inr EXIT_FAILURE))
       \<and> (depthMapsFolder cfg \<noteq> [] \<and> Load env (sfmDataFilename cfg) \<noteq> None \<and>
          \<not> output_directory_ready env cfg \<longrightarrow>
            aliceVision_main_meshing env cfg =
              ([Load_SfMData (sfmDataFilename cfg)], Inl Filesystem_error))
       \<and> (depthMapsFolder cfg \<noteq> [] \<and> Load env (sfmDataFilename cfg) \<noteq> None \<and>
          output_directory_ready env cfg \<longrightarrow>
            fst (aliceVision_main_meshing env cfg) = setup_trace env cfg \<and>
            snd (aliceVision_main_meshing env cfg) \<in>
              {Inl (Invalid_argument auto_not_implemented),
               Inl (Invalid_argument ''Partitioning mode is not defined''),
               Inl (Invalid_argument ''Repartition mode is not defined'')})
       \<and> snd (aliceVision_main_meshing env cfg) \<noteq> Inr EXIT_SUCCESS
       \<and> computation_events (fst (aliceVision_main_meshing env cfg)) = []
       \<and> saved_files (fst (aliceVision_main_meshing env cfg)) = []"
proof (cases "depthMapsFolder cfg = []")
  case True
  then have "aliceVision_main_meshing env cfg =
               ([Log_error invalid_input_options_msg], Inr EXIT_FAILURE)"
    using input_options_unsupported[OF assms] by (simp add: aliceVision_main_meshing_def)
  then show ?thesis using True by simp
next
  case False
  note io = input_options_unsupported[OF assms]
  show ?thesis
  proof (cases "Load env (sfmDataFilename cfg)")
    case None
    then have "aliceVision_main_meshing env cfg =
              ([Load_SfMData (sfmDataFilename cfg),
                Log_error (cannot_be_read_msg (sfmDataFilename cfg))],
               Inr EXIT_FAILURE)"
      using io False by (simp add: aliceVision_main_meshing_def)
    then show ?thesis using False None by simp
  next
    case (Some sfmData)
    show ?thesis
    proof (cases "output_directory_ready env cfg")
      case False
      then have "aliceVision_main_meshing env cfg =
                   ([Load_SfMData (sfmDataFilename cfg)], Inl Filesystem_error)"
        using io \<open>depthMapsFolder cfg \<noteq> []\<close> Some
        by (simp add: aliceVision_main_meshing_def Let_def)
      then show ?thesis using \<open>depthMapsFolder cfg \<noteq> []\<close> Some False by simp
    next
      case True
      let ?mp = "init_mp env cfg sfmData True"
      let ?rec = "reconstruct env cfg sfmData ?mp True (addLandmarksToTheDensePointCloud cfg)"
      have f: "fst ?rec = []" using assms by (rule reconstruct_unsupported(1))
      have s: "snd ?rec \<in> {Inl (Invalid_argument auto_not_implemented),
              Inl (Invalid_argument ''Partitioning mode is not defined''),
              Inl (Invalid_argument ''Repartition mode is not defined'')}"
        using assms by (rule reconstruct_unsupported(2))
      then obtain e where e: "snd ?rec = Inl e"
        and em: "e \<in> {Invalid_argument auto_not_implemented,
                       Invalid_argument ''Partitioning mode is not defined'',
                       Invalid_argument ''Repartition mode is not defined''}"
        by auto
      have "aliceVision_main_meshing env cfg = (setup_trace env cfg, Inl e)"
        using io \<open>depthMapsFolder cfg \<noteq> []\<close> Some True f e
        by (simp add: aliceVision_main_meshing_def Let_def)
      then show ?thesis using \<open>depthMapsFolder cfg \<noteq> []\<close> Some True em by auto
    qed
  qed
qed

lemma example_meshing_env_sel:
  "Load (example_meshing_env mesh cams) f = Some mesh_scene"
  "new_MultiViewParams (example_meshing_env mesh cams) sfm folder m =
     \<lparr>getNbCameras = 2, getViewId = (\<lambda>c. 10 + c), userParams = []\<rparr>"
  "parent_path (example_meshing_env mesh cams) p = ''out''"
  "is_directory (example_meshing_env mesh cams) d = Some False"
  "create_directory (example_meshing_env mesh cams) d = Some True"
  "divideSpaceFromDepthMaps (example_meshing_env mesh cams) mp = unit_cube"
  "divideSpaceFromSfM (example_meshing_env mesh cams) mp sfm n a = unit_cube"
  "findCamsWhichIntersectsHexahedron (example_meshing_env mesh cams) mp h = cams"
  "verticesCoords (example_meshing_env mesh cams) g = pts triangle"
  "createPtsCams (example_meshing_env mesh cams) g = triangle_visibility"
  "createMesh (example_meshing_env mesh cams) g = mesh"
  "meshPostProcessing (example_meshing_env mesh cams) m' pc mp dir h = (m', pc)"
  "project (example_meshing_env mesh cams) = example_project"
  "colorizeTracks (example_meshing_env mesh cams) = example_colorize"
  by (simp_all add: example_meshing_env_def)

lemma example_meshing_cfg_sel:
  "sfmDataFilename (example_meshing_cfg f p r s c) = ''in.sfm''"
  "outputMesh (example_meshing_cfg f p r s c) = ''out/mesh.obj''"
  "outputDensePointCloud (example_meshing_cfg f p r s c) = ''out/dense.abc''"
  "depthMapsFolder (example_meshing_cfg f p r s c) = f"
  "partitioningMode (example_meshing_cfg f p r s c) = p"
  "repartitionMode (example_meshing_cfg f p r s c) = r"
  "estimateSpaceFromSfM (example_meshing_cfg f p r s c) = True"
  "addLandmarksToTheDensePointCloud (example_meshing_cfg f p r s c) = False"
  "saveRawDensePointCloud (example_meshing_cfg f p r s c) = s"
  "colorizeOutput (example_meshing_cfg f p r s c) = c"
  by (simp_all add: example_meshing_cfg_def)

lemma init_mp_sel [simp]:
  "getNbCameras (init_mp env cfg sfmData m) =
     getNbCameras (new_MultiViewParams env sfmData (depthMapsFolder cfg) m)"
  "getViewId (init_mp env cfg sfmData m) =
     getViewId (new_MultiViewParams env sfmData (depthMapsFolder cfg) m)"
  by (simp_all add: init_mp_def Let_def)

lemma example_setup_trace:
  "setup_trace (example_meshing_env mesh cams) (example_meshing_cfg f p r s c) =
     [Load_SfMData ''in.sfm'', Create_directory ''out'',
      Log_warning (''repartitionMode: '' @ to_string (repartition_value r)),
      Log_warning (''partitioningMode: '' @ to_string (partitioning_value p))]"
  by (simp add: setup_trace_def directory_events_def outDirectory_def example_meshing_env_sel
        example_meshing_cfg_sel)

lemma example_directory_ready:
  "output_directory_ready (example_meshing_env mesh cams) cfg"
  by (simp add: output_directory_ready_def directory_events_def example_meshing_env_sel)

text \<open>
  Claim C2, as stated, says the run fails before reading the dataset and before
  creating directories. With a depth-maps folder and partitioning \<open>auto\<close>, the
  dataset is loaded and the output directory created before the exception of line 321.
\<close>
theorem auto_partitioning_fails_after_loading_counterexample:
  "aliceVision_main_meshing (example_meshing_env (Some triangle) [0, 1])
     (example_meshing_cfg ''depthMaps'' (EPartitioning_stringToEnum ''auto'')
        (ERepartitionMode_stringToEnum ''multiResolution'') False False) =
     ([Load_SfMData ''in.sfm'', Create_directory ''out'',
       Log_warning ''repartitionMode: 1'', Log_warning ''partitioningMode: 2''],
      Inl (Invalid_argument auto_not_implemented))"
  by (simp add: aliceVision_main_meshing_def input_options_def reconstruct_def
        EPartitioning_stringToEnum_def ERepartitionMode_stringToEnum_def
        example_setup_trace example_directory_ready example_meshing_env_sel
        example_meshing_cfg_sel to_string.simps digit_char_def)

theorem unsupported_modes_rejected_witness:
  "aliceVision_main_meshing (example_meshing_env (Some triangle) [0, 1])
     (example_meshing_cfg [] (EPartitioning_stringToEnum ''auto'') eRepartitionMultiResolution False False) =
     ([Log_error invalid_input_options_msg], Inr EXIT_FAILURE)
   \<and> fst (aliceVision_main_meshing (example_meshing_env (Some triangle) [0, 1])
       (example_meshing_cfg ''depthMaps'' ePartitioningSingleBlock
          (ERepartitionMode_stringToEnum ''regularGrid'') False False)) =
     [Load_SfMData ''in.sfm'', Create_directory ''out'',
      Log_warning ''repartitionMode: 0'', Log_warning ''partitioningMode: 1'']
   \<and> saved_files (fst (aliceVision_main_meshing (example_meshing_env (Some triangle) [0, 1])
       (example_meshing_cfg ''depthMaps'' ePartitioningSingleBlock
          (ERepartitionMode_stringToEnum ''regularGrid'') False False))) = []
   \<and> aliceVision_main_meshing
       ((example_meshing_env (Some triangle) [0, 1])\<lparr>create_directory := (\<lambda>d. None)\<rparr>)
       (example_meshing_cfg ''depthMaps'' ePartitioningSingleBlock
          (ERepartitionMode_stringToEnum ''regularGrid'') False False) =
     ([Load_SfMData ''in.sfm''], Inl Filesystem_error)"
proof -
  let ?E = "example_meshing_env (Some triangle) [0, 1]"
  let ?A = "example_meshing_cfg [] (EPartitioning_stringToEnum ''auto'') eRepartitionMultiResolution
              False False"
  let ?B = "example_meshing_cfg ''depthMaps'' ePartitioningSingleBlock
              (ERepartitionMode_stringToEnum ''regularGrid'') False False"
  have a: "partitioningMode ?A \<noteq> ePartitioningSingleBlock \<or>
           repartitionMode ?A \<noteq> eRepartitionMultiResolution"
    by (simp add: example_meshing_cfg_sel EPartitioning_stringToEnum_def)
  have b: "partitioningMode ?B \<noteq> ePartitioningSingleBlock \<or>
           repartitionMode ?B \<noteq> eRepartitionMultiResolution"
    by (simp add: example_meshing_cfg_sel ERepartitionMode_stringToEnum_def)
  have n: "\<not> output_directory_ready (?E\<lparr>create_directory := (\<lambda>d. None)\<rparr>) ?B"
    by (simp add: output_directory_ready_def directory_events_def outDirectory_def
          example_meshing_env_def)
  have l: "Load (?E\<lparr>create_directory := (\<lambda>d. None)\<rparr>) (sfmDataFilename ?B) \<noteq> None"
    by (simp add: example_meshing_env_def)
  have one: "aliceVision_main_meshing ?E ?A = ([Log_error invalid_input_options_msg], Inr EXIT_FAILURE)"
    using unsupported_modes_rejected[OF a, of ?E] by (simp add: example_meshing_cfg_sel)
  have two: "fst (aliceVision_main_meshing ?E ?B) =
               [Load_SfMData ''in.sfm'', Create_directory ''out'',
                Log_warning ''repartitionMode: 0'', Log_warning ''partitioningMode: 1'']"
            "saved_files (fst (aliceVision_main_meshing ?E ?B)) = []"
    using unsupported_modes_rejected[OF b, of ?E]
    by (simp_all add: example_meshing_cfg_sel example_meshing_env_sel example_setup_trace
          example_directory_ready ERepartitionMode_stringToEnum_def to_string.simps digit_char_def)
  have three: "aliceVision_main_meshing (?E\<lparr>create_directory := (\<lambda>d. None)\<rparr>) ?B =
                 ([Load_SfMData ''in.sfm''], Inl Filesystem_error)"
    using unsupported_modes_rejected[OF b, of "?E\<lparr>create_directory := (\<lambda>d. None)\<rparr>"] n l
    by (simp add: example_meshing_cfg_sel)
  from one two three show ?thesis by simp
qed


subsection \<open>Runs with supported modes\<close>

lemma input_options_supported:
  assumes "repartitionMode cfg = eRepartitionMultiResolution"
      and "partitioningMode cfg = ePartitioningSingleBlock"
  shows "input_options cfg =
           Some (depthMapsFolder cfg \<noteq> [],
                 depthMapsFolder cfg = [] \<or> addLandmarksToTheDensePointCloud cfg)"
  using assms by (simp add: input_options_def)

lemma main_single_block:
  assumes "Load env (sfmDataFilename cfg) = Some sfmData"
      and "repartitionMode cfg = eRepartitionMultiResolution"
      and "partitioningMode cfg = ePartitioningSingleBlock"
      and "single_block env cfg sfmData (run_mp env cfg sfmData) (depthMapsFolder cfg \<noteq> [])
             (depthMapsFolder cfg = [] \<or> addLandmarksToTheDensePointCloud cfg) = (tr, r)"
      and "output_directory_ready env cfg"
  shows "aliceVision_main_meshing env cfg =
           (case r of
              Inl e \<Rightarrow> (setup_trace env cfg @ tr, Inl e)
            | Inr (mesh, ptsCams) \<Rightarrow>
                apfst ((@) (setup_trace env cfg @ tr))
                  (generate_output env cfg sfmData (run_mp env cfg sfmData) mesh ptsCams))"
  using assms
  by (cases r)
     (auto simp: aliceVision_main_meshing_def input_options_supported reconstruct_def run_mp_def
        Let_def)

lemma main_directory_fails:
  assumes "Load env (sfmDataFilename cfg) = Some sfmData"
      and "repartitionMode cfg = eRepartitionMultiResolution"
      and "partitioningMode cfg = ePartitioningSingleBlock"
      and "\<not> output_directory_ready env cfg"
  shows "aliceVision_main_meshing env cfg =
           ([Load_SfMData (sfmDataFilename cfg)], Inl Filesystem_error)"
  using assms
  by (simp add: aliceVision_main_meshing_def input_options_supported Let_def)

lemma add_observations_error:
  "add_observations env sfmData mp pt cams obs = Inl e \<Longrightarrow> e = Out_of_range \<or> e = Undefined_behaviour"
  by (induction cams arbitrary: obs) (auto split: option.splits)

lemma dense_landmarks_error:
  "dense_landmarks env sfmData mp i vertices ptsCams = Inl e \<Longrightarrow>
     e = Out_of_range \<or> e = Undefined_behaviour"
  by (induction vertices arbitrary: i)
     (auto split: if_splits sum.splits dest: add_observations_error)

lemma createDenseSfMData_error:
  "createDenseSfMData env sfmData mp vertices ptsCams = Inl e \<Longrightarrow>
     e = Out_of_range \<or> e = Undefined_behaviour"
  by (auto simp: createDenseSfMData_def split: sum.splits dest: dense_landmarks_error)

lemma landmark_colors_error:
  "landmark_colors ls idxs = Inl e \<Longrightarrow> e = Out_of_range"
  by (induction idxs arbitrary: e) (auto split: option.splits sum.splits)

lemma dense_point_cloud_of_mesh_error:
  "dense_point_cloud_of_mesh env cfg sfmData mp m ptsCams = Inl e \<Longrightarrow>
     e = Out_of_range \<or> e = Undefined_behaviour"
  by (auto simp: dense_point_cloud_of_mesh_def Let_def
           split: sum.splits if_splits dest: createDenseSfMData_error landmark_colors_error)

lemma generate_output_no_logic_error:
  "snd (generate_output env cfg sfmData mp mesh ptsCams) \<noteq> Inl (Logic_error msg)"
  by (auto simp: generate_output_def split: option.splits sum.splits
           dest: dense_point_cloud_of_mesh_error)

lemma save_raw_error:
  "snd (save_raw_dense_point_cloud env cfg sfmData mp g) = Inl e \<Longrightarrow>
     e = Out_of_range \<or> e = Undefined_behaviour"
  by (auto simp: save_raw_dense_point_cloud_def Let_def split: sum.splits
           dest: createDenseSfMData_error)

lemma cut_and_mesh_no_logic_error:
  "snd (cut_and_mesh env cfg sfmData mp m a hexah cams) \<noteq> Inl (Logic_error msg)"
  by (auto simp: cut_and_mesh_def Let_def split: sum.splits if_splits dest: save_raw_error)

lemma cut_and_mesh_starts:
  "Create_dense_point_cloud \<in> set (fst (cut_and_mesh env cfg sfmData mp m a hexah cams))"
  by (auto simp: cut_and_mesh_def Let_def split: sum.splits)

lemma single_block_no_camera:
  assumes "select_cams env mp m (snd (estimate_space env cfg sfmData mp m)) = []"
  shows "single_block env cfg sfmData mp m a =
           ([Log_info ''Meshing mode: multi-resolution, partitioning: single block.'',
             fst (estimate_space env cfg sfmData mp m)] @
            (if m then [Find_cams_which_intersects_hexahedron] else []),
            Inl (Logic_error ''No camera to make the reconstruction''))"
  using assms by (simp add: single_block_def Let_def)

lemma single_block_with_cameras:
  assumes "select_cams env mp m (snd (estimate_space env cfg sfmData mp m)) \<noteq> []"
  shows "single_block env cfg sfmData mp m a =
           apfst ((@) ([Log_info ''Meshing mode: multi-resolution, partitioning: single block.'',
                        fst (estimate_space env cfg sfmData mp m)] @
                       (if m then [Find_cams_which_intersects_hexahedron] else [])))
             (cut_and_mesh env cfg sfmData mp m a (snd (estimate_space env cfg sfmData mp m))
                (select_cams env mp m (snd (estimate_space env cfg sfmData mp m))))"
  using assms by (simp add: single_block_def Let_def)

lemma estimate_space_event:
  "fst (estimate_space env cfg sfmData mp m) \<in> {Divide_space_from_depth_maps, Divide_space_from_SfM}"
  by (simp add: estimate_space_def)

lemma main_no_camera:
  assumes "Load env (sfmDataFilename cfg) = Some sfmData"
      and "repartitionMode cfg = eRepartitionMultiResolution"
      and "partitioningMode cfg = ePartitioningSingleBlock"
      and "select_cams env (run_mp env cfg sfmData) (depthMapsFolder cfg \<noteq> [])
             (run_hexah env cfg sfmData) = []"
      and "output_directory_ready env cfg"
  shows "aliceVision_main_meshing env cfg =
           (setup_trace env cfg @
            [Log_info ''Meshing mode: multi-resolution, partitioning: single block.'',
             fst (estimate_space env cfg sfmData (run_mp env cfg sfmData) (depthMapsFolder cfg \<noteq> []))] @
            (if depthMapsFolder cfg \<noteq> [] then [Find_cams_which_intersects_hexahedron] else []),
            Inl (Logic_error ''No camera to make the reconstruction''))"
proof -
  note sb = single_block_no_camera[OF assms(4)[unfolded run_hexah_def]]
  show ?thesis using main_single_block[OF assms(1-3) sb assms(5)] by simp
qed

lemma main_with_cameras_no_logic_error:
  assumes "Load env (sfmDataFilename cfg) = Some sfmData"
      and "repartitionMode cfg = eRepartitionMultiResolution"
      and "partitioningMode cfg = ePartitioningSingleBlock"
      and "select_cams env (run_mp env cfg sfmData) (depthMapsFolder cfg \<noteq> [])
             (run_hexah env cfg sfmData) \<noteq> []"
      and "output_directory_ready env cfg"
  shows "snd (aliceVision_main_meshing env cfg) \<noteq> Inl (Logic_error msg)"
    and "Create_dense_point_cloud \<in> set (fst (aliceVision_main_meshing env cfg))"
proof -
  let ?m = "depthMapsFolder cfg \<noteq> []"
  let ?a = "depthMapsFolder cfg = [] \<or> addLandmarksToTheDensePointCloud cfg"
  let ?mp = "run_mp env cfg sfmData"
  let ?cm = "cut_and_mesh env cfg sfmData ?mp ?m ?a (run_hexah env cfg sfmData)
               (select_cams env ?mp ?m (run_hexah env cfg sfmData))"
  obtain tr r where sb: "single_block env cfg sfmData ?mp ?m ?a = (tr, r)"
    by (cases "single_block env cfg sfmData ?mp ?m ?a") auto
  have eq: "(tr, r) = apfst ((@) ([Log_info ''Meshing mode: multi-resolution, partitioning: single block.'',
                        fst (estimate_space env cfg sfmData ?mp ?m)] @
                       (if ?m then [Find_cams_which_intersects_hexahedron] else []))) ?cm"
    using single_block_with_cameras[OF assms(4)[unfolded run_hexah_def], of ?a] sb
    by (simp add: run_hexah_def)
  have r: "r = snd ?cm" and t: "Create_dense_point_cloud \<in> set tr"
    using eq cut_and_mesh_starts[of env cfg sfmData ?mp ?m ?a "run_hexah env cfg sfmData"
            "select_cams env ?mp ?m (run_hexah env cfg sfmData)"]
    by (auto simp: apfst_def map_prod_def split: prod.splits)
  have nl: "r \<noteq> Inl (Logic_error msg)"
    using r cut_and_mesh_no_logic_error by metis
  note main = main_single_block[OF assms(1-3) sb assms(5)]
  have go: "\<And>mesh ptsCams t. generate_output env cfg sfmData ?mp mesh ptsCams \<noteq> (t, Inl (Logic_error msg))"
    using generate_output_no_logic_error[of env cfg sfmData ?mp _ _ msg] by (metis snd_conv)
  show "snd (aliceVision_main_meshing env cfg) \<noteq> Inl (Logic_error msg)"
    using main nl go
    by (auto split: sum.splits prod.splits simp: apfst_def map_prod_def)
  show "Create_dense_point_cloud \<in> set (fst (aliceVision_main_meshing env cfg))"
    using main t by (auto split: sum.splits prod.splits simp: apfst_def map_prod_def)
qed


lemma select_cams_empty:
  "select_cams env mp m hexah = [] \<longleftrightarrow>
     (if m then findCamsWhichIntersectsHexahedron env mp hexah = [] else getNbCameras mp = 0)"
  by (simp add: select_cams_def)

subsection \<open>Runs without a camera\<close>

text \<open>
  Claim C7, amended. In a run with the supported modes whose dataset loads, the
  exception \<^verbatim>\<open>std::logic_error("No camera to make the reconstruction")\<close> is thrown
  exactly when the output directory step returns and the list \<^verbatim>\<open>cams\<close> is empty:
  when meshing from depth maps, when no camera intersects the estimated hexahedron;
  when meshing from the SfM data alone (no depth-maps folder), when the dataset has no
  camera at all, since all cameras are taken without an intersection test. When it is
  thrown, nothing has been saved and the dense point cloud has not been created.
\<close>
theorem no_camera_for_reconstruction:
  assumes "Load env (sfmDataFilename cfg) = Some sfmData"
      and "repartitionMode cfg = eRepartitionMultiResolution"
      and "partitioningMode cfg = ePartitioningSingleBlock"
  shows "(snd (aliceVision_main_meshing env cfg) = Inl (Logic_error ''No camera to make the reconstruction'')
          \<longleftrightarrow> output_directory_ready env cfg \<and>
              (if depthMapsFolder cfg \<noteq> []
               then findCamsWhichIntersectsHexahedron env (run_mp env cfg sfmData)
                      (run_hexah env cfg sfmData) = []
               else getNbCameras (run_mp env cfg sfmData) = 0))
       \<and> (snd (aliceVision_main_meshing env cfg) = Inl (Logic_error ''No camera to make the reconstruction'')
          \<longrightarrow> saved_files (fst (aliceVision_main_meshing env cfg)) = [] \<and>
              Create_dense_point_cloud \<notin> set (fst (aliceVision_main_meshing env cfg)))"
proof (cases "output_directory_ready env cfg")
  case ready: True
  show ?thesis
  proof (cases "select_cams env (run_mp env cfg sfmData) (depthMapsFolder cfg \<noteq> [])
                  (run_hexah env cfg sfmData) = []")
    case True
    note main = main_no_camera[OF assms True ready]
    have e: "fst (estimate_space env cfg sfmData (run_mp env cfg sfmData) (depthMapsFolder cfg \<noteq> []))
               \<in> {Divide_space_from_depth_maps, Divide_space_from_SfM}"
      by (rule estimate_space_event)
    have d: "Create_dense_point_cloud \<notin> set (setup_trace env cfg)"
      by (auto simp: setup_trace_def directory_events_def split: option.splits bool.splits)
    have "saved_files (fst (aliceVision_main_meshing env cfg)) = []"
         "Create_dense_point_cloud \<notin> set (fst (aliceVision_main_meshing env cfg))"
      using main e d by (auto simp: saved_files_append setup_trace_quiet)
    then show ?thesis using main True ready by (simp add: select_cams_empty)
  next
    case False
    have "snd (aliceVision_main_meshing env cfg) \<noteq> Inl (Logic_error ''No camera to make the reconstruction'')"
      using assms False ready by (rule main_with_cameras_no_logic_error(1))
    then show ?thesis using False by (simp add: select_cams_empty)
  qed
next
  case False
  then show ?thesis using main_directory_fails[OF assms False] by simp
qed

lemma example_run_mp [simp]:
  "getNbCameras (run_mp (example_meshing_env mesh cams) cfg sfm) = 2"
  "getViewId (run_mp (example_meshing_env mesh cams) cfg sfm) = (\<lambda>c. 10 + c)"
  by (simp_all add: run_mp_def example_meshing_env_sel)

theorem no_camera_for_reconstruction_witness:
  "snd (aliceVision_main_meshing (example_meshing_env (Some triangle) [])
          (example_meshing_cfg ''depthMaps'' ePartitioningSingleBlock eRepartitionMultiResolution False False))
     = Inl (Logic_error ''No camera to make the reconstruction'')
   \<and> saved_files (fst (aliceVision_main_meshing (example_meshing_env (Some triangle) [])
          (example_meshing_cfg ''depthMaps'' ePartitioningSingleBlock eRepartitionMultiResolution False False)))
     = []
   \<and> snd (aliceVision_main_meshing (example_meshing_env (Some triangle) [0, 1])
          (example_meshing_cfg ''depthMaps'' ePartitioningSingleBlock eRepartitionMultiResolution False False))
     \<noteq> Inl (Logic_error ''No camera to make the reconstruction'')
   \<and> snd (aliceVision_main_meshing
          ((example_meshing_env (Some triangle) [])\<lparr>create_directory := (\<lambda>d. None)\<rparr>)
          (example_meshing_cfg ''depthMaps'' ePartitioningSingleBlock eRepartitionMultiResolution False False))
     \<noteq> Inl (Logic_error ''No camera to make the reconstruction'')"
proof -
  let ?C = "example_meshing_cfg ''depthMaps'' ePartitioningSingleBlock eRepartitionMultiResolution
              False False"
  let ?N = "(example_meshing_env (Some triangle) [])\<lparr>create_directory := (\<lambda>d. None)\<rparr>"
  have l: "Load ?N (sfmDataFilename ?C) = Some mesh_scene"
    by (simp add: example_meshing_env_def)
  have n: "\<not> output_directory_ready ?N ?C"
    by (simp add: output_directory_ready_def directory_events_def outDirectory_def
          example_meshing_env_def)
  have a: "snd (aliceVision_main_meshing (example_meshing_env (Some triangle) []) ?C)
             = Inl (Logic_error ''No camera to make the reconstruction'')
           \<and> saved_files (fst (aliceVision_main_meshing (example_meshing_env (Some triangle) []) ?C)) = []"
    using no_camera_for_reconstruction[of "example_meshing_env (Some triangle) []" ?C mesh_scene]
    by (simp add: example_meshing_env_sel example_meshing_cfg_sel example_directory_ready)
  have b: "snd (aliceVision_main_meshing (example_meshing_env (Some triangle) [0, 1]) ?C)
             \<noteq> Inl (Logic_error ''No camera to make the reconstruction'')"
    using no_camera_for_reconstruction[of "example_meshing_env (Some triangle) [0, 1]" ?C mesh_scene]
    by (simp add: example_meshing_env_sel example_meshing_cfg_sel example_directory_ready)
  have c: "snd (aliceVision_main_meshing ?N ?C)
             \<noteq> Inl (Logic_error ''No camera to make the reconstruction'')"
    using no_camera_for_reconstruction[OF l] n
    by (simp add: example_meshing_cfg_sel)
  from a b c show ?thesis by simp
qed

lemma example_dense_landmarks:
  assumes "getViewId mp = (\<lambda>c. 10 + c)"
  shows "createDenseSfMData (example_meshing_env mesh cams) mesh_scene mp (pts triangle) triangle_visibility =
     Inr (mesh_scene\<lparr>landmarks :=
       [(0, \<lparr>position = (0, 0, 0), descType = UNKNOWN,
              observations = [(10, \<lparr>obs_x = (100, 7), id_feat = None, scale = 0\<rparr>),
                              (11, \<lparr>obs_x = (101, 7), id_feat = None, scale = 0\<rparr>)],
              rgb = new_landmark_rgb\<rparr>),
        (1, \<lparr>position = (1, 0, 0), descType = UNKNOWN, observations = [], rgb = new_landmark_rgb\<rparr>),
        (2, \<lparr>position = (0, 1, 0), descType = UNKNOWN,
              observations = [(11, \<lparr>obs_x = (101, 8), id_feat = None, scale = 0\<rparr>)],
              rgb = new_landmark_rgb\<rparr>)]\<rparr>)"
  using assms
  by (simp add: createDenseSfMData_def triangle_def triangle_visibility_def mesh_scene_def
        cam_view_def example_project_def example_meshing_env_sel)


lemma example_raw_dense_path: "raw_dense_path (outDirectory (example_meshing_env mesh cams) cfg) = ''out/densePointCloud_raw.abc''"
  by (simp add: raw_dense_path_def outDirectory_def example_meshing_env_sel path_append_def)

lemma example_cut_and_mesh:
  assumes "getViewId mp = (\<lambda>c. 10 + c)"
  shows "cut_and_mesh (example_meshing_env mesh cams) (example_meshing_cfg f p r False c)
           mesh_scene mp m a hexah cams' =
           ([Create_dense_point_cloud, Create_graph_cut, Mesh_post_processing],
            Inr (mesh, triangle_visibility))"
    and "cut_and_mesh (example_meshing_env mesh cams) (example_meshing_cfg f p r True False)
           mesh_scene mp m a hexah cams' =
           ([Create_dense_point_cloud,
             Log_info ''Save dense point cloud before cut and filtering.'',
             Save_SfMData ''out/densePointCloud_raw.abc''
               [(0, \<lparr>position = (0, 0, 0), descType = UNKNOWN,
                      observations = [(10, \<lparr>obs_x = (100, 7), id_feat = None, scale = 0\<rparr>),
                                      (11, \<lparr>obs_x = (101, 7), id_feat = None, scale = 0\<rparr>)],
                      rgb = new_landmark_rgb\<rparr>),
                (2, \<lparr>position = (0, 1, 0), descType = UNKNOWN,
                      observations = [(11, \<lparr>obs_x = (101, 8), id_feat = None, scale = 0\<rparr>)],
                      rgb = new_landmark_rgb\<rparr>)],
             Create_graph_cut, Mesh_post_processing],
            Inr (mesh, triangle_visibility))"
  by (simp_all add: cut_and_mesh_def save_raw_dense_point_cloud_def Let_def
        example_dense_landmarks[OF assms] removeLandmarksWithoutObservations_def
        example_raw_dense_path example_meshing_env_sel example_meshing_cfg_sel)

lemma example_single_block:
  assumes "getViewId mp = (\<lambda>c. 10 + c)" "getNbCameras mp = 2" "m \<longrightarrow> cams \<noteq> []"
  shows "single_block (example_meshing_env mesh cams) (example_meshing_cfg f p r False c)
           mesh_scene mp m a =
           ([Log_info ''Meshing mode: multi-resolution, partitioning: single block.'',
             Divide_space_from_SfM] @
            (if m then [Find_cams_which_intersects_hexahedron] else []) @
            [Create_dense_point_cloud, Create_graph_cut, Mesh_post_processing],
            Inr (mesh, triangle_visibility))"
    and "single_block (example_meshing_env mesh cams) (example_meshing_cfg f p r True False)
           mesh_scene mp m a =
           ([Log_info ''Meshing mode: multi-resolution, partitioning: single block.'',
             Divide_space_from_SfM] @
            (if m then [Find_cams_which_intersects_hexahedron] else []) @
            [Create_dense_point_cloud,
             Log_info ''Save dense point cloud before cut and filtering.'',
             Save_SfMData ''out/densePointCloud_raw.abc''
               [(0, \<lparr>position = (0, 0, 0), descType = UNKNOWN,
                      observations = [(10, \<lparr>obs_x = (100, 7), id_feat = None, scale = 0\<rparr>),
                                      (11, \<lparr>obs_x = (101, 7), id_feat = None, scale = 0\<rparr>)],
                      rgb = new_landmark_rgb\<rparr>),
                (2, \<lparr>position = (0, 1, 0), descType = UNKNOWN,
                      observations = [(11, \<lparr>obs_x = (101, 8), id_feat = None, scale = 0\<rparr>)],
                      rgb = new_landmark_rgb\<rparr>)],
             Create_graph_cut, Mesh_post_processing],
            Inr (mesh, triangle_visibility))"
  using assms(2,3)
  by (simp_all add: single_block_def Let_def estimate_space_def select_cams_def
        example_cut_and_mesh[OF assms(1)] example_meshing_env_sel example_meshing_cfg_sel)

lemma example_generate_output:
  assumes "getViewId mp = (\<lambda>c. 10 + c)"
  shows "generate_output (example_meshing_env mesh cams) (example_meshing_cfg f p r s False)
           mesh_scene mp (Some triangle) triangle_visibility =
           ([Log_info ''Save dense point cloud.'',
             Save_SfMData ''out/dense.abc''
               [(0, \<lparr>position = (0, 0, 0), descType = UNKNOWN,
                      observations = [(10, \<lparr>obs_x = (100, 7), id_feat = None, scale = 0\<rparr>),
                                      (11, \<lparr>obs_x = (101, 7), id_feat = None, scale = 0\<rparr>)],
                      rgb = new_landmark_rgb\<rparr>),
                (2, \<lparr>position = (0, 1, 0), descType = UNKNOWN,
                      observations = [(11, \<lparr>obs_x = (101, 8), id_feat = None, scale = 0\<rparr>)],
                      rgb = new_landmark_rgb\<rparr>)],
             Log_info ''Save obj mesh file.'',
             Save_obj ''out/mesh.obj'' triangle,
             Log_info ''Task done''],
            Inr EXIT_SUCCESS)"
proof -
  have v: "\<not> no_valid_mesh (Some triangle)" "triangle_visibility \<noteq> []"
    by (simp_all add: no_valid_mesh_def triangle_def triangle_visibility_def)
  show ?thesis
    using v
    by (simp add: generate_output_def dense_point_cloud_of_mesh_def
          example_dense_landmarks[OF assms] removeLandmarksWithoutObservations_def
          example_meshing_cfg_sel)
qed

text \<open>
  Claim C7, as stated, says the failure occurs for every input whose set of cameras
  intersecting the volume is empty. When meshing from the SfM data (lines 341 to
  346) the intersection is never computed: here no camera intersects the hexahedron,
  and the run uses both cameras and succeeds.
\<close>
theorem sfm_meshing_ignores_intersection_counterexample:
  "findCamsWhichIntersectsHexahedron (example_meshing_env (Some triangle) [])
     (run_mp (example_meshing_env (Some triangle) [])
        (example_meshing_cfg [] ePartitioningSingleBlock eRepartitionMultiResolution False False) mesh_scene)
     (run_hexah (example_meshing_env (Some triangle) [])
        (example_meshing_cfg [] ePartitioningSingleBlock eRepartitionMultiResolution False False) mesh_scene)
     = []
   \<and> snd (aliceVision_main_meshing (example_meshing_env (Some triangle) [])
        (example_meshing_cfg [] ePartitioningSingleBlock eRepartitionMultiResolution False False))
     = Inr EXIT_SUCCESS
   \<and> saved_files (fst (aliceVision_main_meshing (example_meshing_env (Some triangle) [])
        (example_meshing_cfg [] ePartitioningSingleBlock eRepartitionMultiResolution False False)))
     = [''out/dense.abc'', ''out/mesh.obj'']"
proof -
  let ?E = "example_meshing_env (Some triangle) []"
  let ?C = "example_meshing_cfg [] ePartitioningSingleBlock eRepartitionMultiResolution False False"
  have sb: "single_block ?E ?C mesh_scene (run_mp ?E ?C mesh_scene) (depthMapsFolder ?C \<noteq> [])
              (depthMapsFolder ?C = [] \<or> addLandmarksToTheDensePointCloud ?C) =
            ([Log_info ''Meshing mode: multi-resolution, partitioning: single block.'',
              Divide_space_from_SfM] @
             (if depthMapsFolder ?C \<noteq> [] then [Find_cams_which_intersects_hexahedron] else []) @
             [Create_dense_point_cloud, Create_graph_cut, Mesh_post_processing],
             Inr (Some triangle, triangle_visibility))"
    by (rule example_single_block(1)) (simp_all add: example_meshing_cfg_sel)
  have "aliceVision_main_meshing ?E ?C =
          apfst ((@) (setup_trace ?E ?C @
             [Log_info ''Meshing mode: multi-resolution, partitioning: single block.'',
              Divide_space_from_SfM] @
             (if depthMapsFolder ?C \<noteq> [] then [Find_cams_which_intersects_hexahedron] else []) @
             [Create_dense_point_cloud, Create_graph_cut, Mesh_post_processing]))
            (generate_output ?E ?C mesh_scene (run_mp ?E ?C mesh_scene) (Some triangle) triangle_visibility)"
    using main_single_block[OF _ _ _ sb example_directory_ready]
    by (simp add: example_meshing_env_sel example_meshing_cfg_sel)
  then show ?thesis
    by (simp add: example_generate_output example_meshing_env_sel example_meshing_cfg_sel)
qed


subsection \<open>Runs without a valid mesh\<close>

lemma save_raw_saved:
  assumes "snd (save_raw_dense_point_cloud env cfg sfmData mp g) = Inr u"
  shows "saved_files (fst (save_raw_dense_point_cloud env cfg sfmData mp g)) =
           [raw_dense_path (outDirectory env cfg)]"
  using assms by (auto simp: save_raw_dense_point_cloud_def Let_def split: sum.splits)

lemma cut_and_mesh_saved:
  assumes "cut_and_mesh env cfg sfmData mp m a hexah cams = (tr, Inr r)"
  shows "saved_files tr =
           (if saveRawDensePointCloud cfg then [raw_dense_path (outDirectory env cfg)] else [])"
proof (cases "saveRawDensePointCloud cfg")
  case False
  then show ?thesis using assms by (auto simp: cut_and_mesh_def Let_def)
next
  case True
  let ?raw = "save_raw_dense_point_cloud env cfg sfmData mp
                (createDensePointCloud env mp hexah cams (if a then Some sfmData else None)
                   (if m then Some (fuseParams cfg) else None))"
  from assms True obtain u where u: "snd ?raw = Inr u"
    and tr: "tr = Create_dense_point_cloud # fst ?raw @ [Create_graph_cut, Mesh_post_processing]"
    by (auto simp: cut_and_mesh_def Let_def split: sum.splits)
  show ?thesis using save_raw_saved[OF u] tr True by simp
qed

lemma single_block_saved:
  assumes "single_block env cfg sfmData mp m a = (tr, Inr r)"
  shows "saved_files tr =
           (if saveRawDensePointCloud cfg then [raw_dense_path (outDirectory env cfg)] else [])"
proof -
  let ?hexah = "snd (estimate_space env cfg sfmData mp m)"
  let ?cams = "select_cams env mp m ?hexah"
  have ne: "?cams \<noteq> []" using assms by (auto simp: single_block_def Let_def split: if_splits)
  obtain tr' r' where cm: "cut_and_mesh env cfg sfmData mp m a ?hexah ?cams = (tr', r')"
    by (cases "cut_and_mesh env cfg sfmData mp m a ?hexah ?cams") auto
  have "r' = Inr r"
    and "tr = [Log_info ''Meshing mode: multi-resolution, partitioning: single block.'',
               fst (estimate_space env cfg sfmData mp m)] @
              (if m then [Find_cams_which_intersects_hexahedron] else []) @ tr'"
    using assms single_block_with_cameras[OF ne, of a] cm by auto
  moreover have "fst (estimate_space env cfg sfmData mp m)
                   \<in> {Divide_space_from_depth_maps, Divide_space_from_SfM}"
    by (rule estimate_space_event)
  ultimately show ?thesis using cut_and_mesh_saved[of env cfg sfmData mp m a ?hexah ?cams tr' r] cm
    by auto
qed

lemma reconstruct_saved:
  assumes "reconstruct env cfg sfmData mp m a = (tr, Inr r)"
  shows "saved_files tr =
           (if saveRawDensePointCloud cfg then [raw_dense_path (outDirectory env cfg)] else [])"
  using assms
  by (auto simp: reconstruct_def split: ERepartitionMode.splits EPartitioningMode.splits
           dest: single_block_saved)

lemma generate_output_no_valid_mesh:
  assumes "no_valid_mesh mesh"
  shows "generate_output env cfg sfmData mp mesh ptsCams =
           ([], Inl (Runtime_error ''No valid mesh was generated.''))"
  using assms by (cases mesh) (auto simp: generate_output_def)

lemma main_no_valid_mesh:
  assumes "input_options cfg = Some (m, a)"
      and "Load env (sfmDataFilename cfg) = Some sfmData"
      and "reconstruct env cfg sfmData (init_mp env cfg sfmData m) m a = (tr, Inr (mesh, ptsCams))"
      and "no_valid_mesh mesh"
      and "output_directory_ready env cfg"
  shows "aliceVision_main_meshing env cfg =
           (setup_trace env cfg @ tr, Inl (Runtime_error ''No valid mesh was generated.''))"
  using assms(1-3,5)
  by (simp add: aliceVision_main_meshing_def Let_def generate_output_no_valid_mesh[OF assms(4)])

lemma main_directory_error:
  assumes "input_options cfg = Some (m, a)"
      and "Load env (sfmDataFilename cfg) = Some sfmData"
      and "\<not> output_directory_ready env cfg"
  shows "aliceVision_main_meshing env cfg =
           ([Load_SfMData (sfmDataFilename cfg)], Inl Filesystem_error)"
  using assms by (simp add: aliceVision_main_meshing_def Let_def)

text \<open>
  Claim C1, amended. When the reconstruction hands a null mesh, or a mesh without
  vertices or without triangles, to the output stage, the run ends with
  \<^verbatim>\<open>std::runtime_error("No valid mesh was generated.")\<close>, and neither the dense
  point cloud of the mesh nor the OBJ file is saved. The only file the driver has
  saved by then is the raw dense point cloud \<^verbatim>\<open>densePointCloud_raw.abc\<close>, and
  only when \<^verbatim>\<open>saveRawDensePointCloud\<close> is set. A run whose output directory step
  throws never reaches the reconstruction: it ends with the file-system error.
\<close>
theorem no_valid_mesh_fails_before_output:
  assumes "input_options cfg = Some (m, a)"
      and "Load env (sfmDataFilename cfg) = Some sfmData"
      and "reconstruct env cfg sfmData (init_mp env cfg sfmData m) m a = (tr, Inr (mesh, ptsCams))"
      and "no_valid_mesh mesh"
  shows "(output_directory_ready env cfg \<longrightarrow>
            aliceVision_main_meshing env cfg =
              (setup_trace env cfg @ tr, Inl (Runtime_error ''No valid mesh was generated.''))
          \<and> saved_files (fst (aliceVision_main_meshing env cfg)) =
              (if saveRawDensePointCloud cfg then [raw_dense_path (outDirectory env cfg)] else []))
       \<and> (\<not> output_directory_ready env cfg \<longrightarrow>
            aliceVision_main_meshing env cfg =
              ([Load_SfMData (sfmDataFilename cfg)], Inl Filesystem_error))"
proof (cases "output_directory_ready env cfg")
  case True
  then show ?thesis
    using main_no_valid_mesh[OF assms True] reconstruct_saved[OF assms(3)] by simp
next
  case False
  then show ?thesis using main_directory_error[OF assms(1,2) False] by simp
qed

lemma example_input_options:
  "input_options (example_meshing_cfg ''depthMaps'' p r s c) = Some (True, False)"
  by (simp add: input_options_def example_meshing_cfg_sel)

lemma example_reconstruct:
  "reconstruct (example_meshing_env mesh [0, 1])
     (example_meshing_cfg f ePartitioningSingleBlock eRepartitionMultiResolution False c) mesh_scene
     (init_mp (example_meshing_env mesh [0, 1])
        (example_meshing_cfg f ePartitioningSingleBlock eRepartitionMultiResolution False c) mesh_scene True)
     True False =
     ([Log_info ''Meshing mode: multi-resolution, partitioning: single block.'',
       Divide_space_from_SfM, Find_cams_which_intersects_hexahedron,
       Create_dense_point_cloud, Create_graph_cut, Mesh_post_processing],
      Inr (mesh, triangle_visibility))"
  "reconstruct (example_meshing_env mesh [0, 1])
     (example_meshing_cfg f ePartitioningSingleBlock eRepartitionMultiResolution True False) mesh_scene
     (init_mp (example_meshing_env mesh [0, 1])
        (example_meshing_cfg f ePartitioningSingleBlock eRepartitionMultiResolution True False) mesh_scene True)
     True False =
     ([Log_info ''Meshing mode: multi-resolution, partitioning: single block.'',
       Divide_space_from_SfM, Find_cams_which_intersects_hexahedron,
       Create_dense_point_cloud,
       Log_info ''Save dense point cloud before cut and filtering.'',
       Save_SfMData ''out/densePointCloud_raw.abc''
         [(0, \<lparr>position = (0, 0, 0), descType = UNKNOWN,
                observations = [(10, \<lparr>obs_x = (100, 7), id_feat = None, scale = 0\<rparr>),
                                (11, \<lparr>obs_x = (101, 7), id_feat = None, scale = 0\<rparr>)],
                rgb = new_landmark_rgb\<rparr>),
          (2, \<lparr>position = (0, 1, 0), descType = UNKNOWN,
                observations = [(11, \<lparr>obs_x = (101, 8), id_feat = None, scale = 0\<rparr>)],
                rgb = new_landmark_rgb\<rparr>)],
       Create_graph_cut, Mesh_post_processing],
      Inr (mesh, triangle_visibility))"
  by (simp_all add: reconstruct_def example_meshing_cfg_sel example_single_block
        example_meshing_env_sel)

theorem no_valid_mesh_fails_before_output_witness:
  "aliceVision_main_meshing (example_meshing_env (Some flat_triangle) [0, 1])
     (example_meshing_cfg ''depthMaps'' ePartitioningSingleBlock eRepartitionMultiResolution False False) =
     ([Load_SfMData ''in.sfm'', Create_directory ''out'',
       Log_warning ''repartitionMode: 1'', Log_warning ''partitioningMode: 1'',
       Log_info ''Meshing mode: multi-resolution, partitioning: single block.'',
       Divide_space_from_SfM, Find_cams_which_intersects_hexahedron,
       Create_dense_point_cloud, Create_graph_cut, Mesh_post_processing],
      Inl (Runtime_error ''No valid mesh was generated.''))
   \<and> saved_files (fst (aliceVision_main_meshing (example_meshing_env (Some flat_triangle) [0, 1])
     (example_meshing_cfg ''depthMaps'' ePartitioningSingleBlock eRepartitionMultiResolution False False)))
     = []"
proof -
  have n: "no_valid_mesh (Some flat_triangle)" by (simp add: no_valid_mesh_def flat_triangle_def)
  show ?thesis
    using no_valid_mesh_fails_before_output[OF example_input_options example_meshing_env_sel(1)
            example_reconstruct(1) n]
    by (simp add: example_setup_trace example_directory_ready example_meshing_cfg_sel
          to_string.simps digit_char_def)
qed

text \<open>
  Claim C1, as stated, says no output file (dense point cloud, mesh) is created.
  With \<^verbatim>\<open>saveRawDensePointCloud\<close> set, lines 353 to 364 save the raw dense point
  cloud before the graph cut, so the file exists when the run fails.
\<close>
theorem raw_dense_point_cloud_saved_before_failure_counterexample:
  "no_valid_mesh (Some flat_triangle)
   \<and> snd (aliceVision_main_meshing (example_meshing_env (Some flat_triangle) [0, 1])
        (example_meshing_cfg ''depthMaps'' ePartitioningSingleBlock eRepartitionMultiResolution True False))
     = Inl (Runtime_error ''No valid mesh was generated.'')
   \<and> saved_files (fst (aliceVision_main_meshing (example_meshing_env (Some flat_triangle) [0, 1])
        (example_meshing_cfg ''depthMaps'' ePartitioningSingleBlock eRepartitionMultiResolution True False)))
     = [''out/densePointCloud_raw.abc'']"
proof -
  have n: "no_valid_mesh (Some flat_triangle)" by (simp add: no_valid_mesh_def flat_triangle_def)
  show ?thesis
    using n main_no_valid_mesh[OF example_input_options example_meshing_env_sel(1)
            example_reconstruct(2) n example_directory_ready]
    by simp
qed

subsection \<open>The dense point cloud\<close>

lemma spec_observation_resolves:
  assumes "camera_resolves sfmData mp c"
  obtains view pose intr where
    "views sfmData (getViewId mp c) = Some view" "viewId view = getViewId mp c"
    "poses sfmData (poseId view) = Some pose"
    "map_of (intrinsics sfmData) (intrinsicId view) = Some intr"
    "spec_observation env sfmData pt (getViewId mp c) =
       Some \<lparr>obs_x = project env intr pose pt True, id_feat = None, scale = 0\<rparr>"
  using assms
  by (auto simp: camera_resolves_def spec_observation_def split: option.splits)

lemma add_observations_spec:
  assumes "\<forall>c\<in>set cams. camera_resolves sfmData mp c" and "distinct (map fst obs)"
  shows "\<exists>obs'. add_observations env sfmData mp pt cams obs = Inr obs' \<and>
           distinct (map fst obs') \<and>
           map_of obs' = (\<lambda>k. if k \<in> getViewId mp ` set cams
                               then spec_observation env sfmData pt k else map_of obs k)"
  using assms
proof (induction cams arbitrary: obs)
  case Nil
  then show ?case by simp
next
  case (Cons c cams)
  from Cons.prems(1) have "camera_resolves sfmData mp c" by simp
  then obtain view pose intr where r:
    "views sfmData (getViewId mp c) = Some view" "viewId view = getViewId mp c"
    "poses sfmData (poseId view) = Some pose"
    "map_of (intrinsics sfmData) (intrinsicId view) = Some intr"
    "spec_observation env sfmData pt (getViewId mp c) =
       Some \<lparr>obs_x = project env intr pose pt True, id_feat = None, scale = 0\<rparr>"
    by (rule spec_observation_resolves)
  let ?o = "\<lparr>obs_x = project env intr pose pt True, id_feat = None, scale = 0\<rparr>"
  let ?obs1 = "AList.update (getViewId mp c) ?o obs"
  have d1: "distinct (map fst ?obs1)" using Cons.prems(2) by (rule distinct_update)
  from Cons.IH[OF _ d1] Cons.prems(1)
  obtain obs' where o: "add_observations env sfmData mp pt cams ?obs1 = Inr obs'"
    "distinct (map fst obs')"
    "map_of obs' = (\<lambda>k. if k \<in> getViewId mp ` set cams
                         then spec_observation env sfmData pt k else map_of ?obs1 k)"
    by auto
  have "add_observations env sfmData mp pt (c # cams) obs = Inr obs'"
    using r o(1) by simp
  moreover have "map_of obs' = (\<lambda>k. if k \<in> getViewId mp ` set (c # cams)
                               then spec_observation env sfmData pt k else map_of obs k)"
    using o(3) r(5) by (auto simp: fun_eq_iff update_conv')
  ultimately show ?case using o(2) by blast
qed

lemma add_observations_from_empty:
  assumes "\<forall>c\<in>set cams. camera_resolves sfmData mp c"
  shows "\<exists>obs'. add_observations env sfmData mp pt cams [] = Inr obs' \<and>
           distinct (map fst obs') \<and>
           map_of obs' = (\<lambda>k. if k \<in> getViewId mp ` set cams
                               then spec_observation env sfmData pt k else None)"
  using add_observations_spec[OF assms, of "[]" env pt] by (simp cong: if_cong)

lemma observations_of_cams:
  assumes "\<forall>c\<in>set cams. camera_resolves sfmData mp c"
      and "map_of obs = (\<lambda>k. if k \<in> getViewId mp ` set cams
                              then spec_observation env sfmData pt k else None)"
      and "distinct (map fst obs)"
  shows "fst ` set obs = getViewId mp ` set cams"
    and "inj_on (getViewId mp) (set cams) \<Longrightarrow> length obs = card (set cams)"
    and "obs = [] \<longleftrightarrow> cams = []"
proof -
  have some: "\<And>c. c \<in> set cams \<Longrightarrow> spec_observation env sfmData pt (getViewId mp c) \<noteq> None"
  proof -
    fix c assume "c \<in> set cams"
    then have "camera_resolves sfmData mp c" using assms(1) by simp
    then show "spec_observation env sfmData pt (getViewId mp c) \<noteq> None"
      by (rule spec_observation_resolves[where env = env and pt = pt]) simp
  qed
  have "dom (map_of obs) = getViewId mp ` set cams"
    using some by (auto simp: assms(2) dom_def split: if_splits)
  then show d: "fst ` set obs = getViewId mp ` set cams"
    by (simp add: dom_map_of_conv_image_fst)
  have l: "length obs = card (fst ` set obs)"
    using assms(3) by (metis distinct_card length_map set_map)
  show "inj_on (getViewId mp) (set cams) \<Longrightarrow> length obs = card (set cams)"
    using l d by (simp add: card_image)
  show "obs = [] \<longleftrightarrow> cams = []"
    using d by (cases obs; cases cams) auto
qed


lemma dense_landmarks_spec:
  assumes "\<forall>j<length vertices. i + j < length ptsCams \<and>
             (\<forall>c\<in>set (ptsCams ! (i + j)). camera_resolves sfmData mp c)"
  shows "\<exists>ls. dense_landmarks env sfmData mp i vertices ptsCams = Inr ls \<and>
           map fst ls = [i..<i + length vertices] \<and>
           (\<forall>j<length vertices.
              position (snd (ls ! j)) = vertices ! j \<and>
              distinct (map fst (observations (snd (ls ! j)))) \<and>
              map_of (observations (snd (ls ! j))) =
                (\<lambda>k. if k \<in> getViewId mp ` set (ptsCams ! (i + j))
                      then spec_observation env sfmData (vertices ! j) k else None))"
  using assms
proof (induction vertices arbitrary: i)
  case Nil
  then show ?case by simp
next
  case (Cons v vs)
  from Cons.prems have i: "i < length ptsCams"
    and r: "\<forall>c\<in>set (ptsCams ! i). camera_resolves sfmData mp c"
    by force+
  from add_observations_from_empty[OF r, of env v]
  obtain obs where o: "add_observations env sfmData mp v (ptsCams ! i) [] = Inr obs"
    "distinct (map fst obs)"
    "map_of obs = (\<lambda>k. if k \<in> getViewId mp ` set (ptsCams ! i)
                        then spec_observation env sfmData v k else None)"
    by auto
  have o': "(if ptsCams ! i \<noteq> [] then add_observations env sfmData mp v (ptsCams ! i) []
             else Inr []) = Inr obs"
    using o(1) by (cases "ptsCams ! i") auto
  have "\<forall>j<length vs. Suc i + j < length ptsCams \<and>
          (\<forall>c\<in>set (ptsCams ! (Suc i + j)). camera_resolves sfmData mp c)"
  proof (intro allI impI)
    fix j assume "j < length vs"
    then have "Suc j < length (v # vs)" by simp
    with Cons.prems have "i + Suc j < length ptsCams \<and>
          (\<forall>c\<in>set (ptsCams ! (i + Suc j)). camera_resolves sfmData mp c)" by blast
    then show "Suc i + j < length ptsCams \<and>
          (\<forall>c\<in>set (ptsCams ! (Suc i + j)). camera_resolves sfmData mp c)" by simp
  qed
  from Cons.IH[OF this]
  obtain ls where ls: "dense_landmarks env sfmData mp (Suc i) vs ptsCams = Inr ls"
    "map fst ls = [Suc i..<Suc i + length vs]"
    "\<forall>j<length vs.
       position (snd (ls ! j)) = vs ! j \<and>
       distinct (map fst (observations (snd (ls ! j)))) \<and>
       map_of (observations (snd (ls ! j))) =
         (\<lambda>k. if k \<in> getViewId mp ` set (ptsCams ! (Suc i + j))
               then spec_observation env sfmData (vs ! j) k else None)"
    by auto
  let ?l = "\<lparr>position = v, descType = UNKNOWN, observations = obs, rgb = new_landmark_rgb\<rparr>"
  have res: "dense_landmarks env sfmData mp i (v # vs) ptsCams = Inr ((i, ?l) # ls)"
    using i o' ls(1) by simp
  have keys: "map fst ((i, ?l) # ls) = [i..<i + length (v # vs)]"
  proof -
    have "[i..<i + length (v # vs)] = i # [Suc i..<Suc i + length vs]"
      by (simp add: upt_conv_Cons del: upt_Suc)
    then show ?thesis using ls(2) by simp
  qed
  have each: "\<forall>j<length (v # vs).
       position (snd (((i, ?l) # ls) ! j)) = (v # vs) ! j \<and>
       distinct (map fst (observations (snd (((i, ?l) # ls) ! j)))) \<and>
       map_of (observations (snd (((i, ?l) # ls) ! j))) =
         (\<lambda>k. if k \<in> getViewId mp ` set (ptsCams ! (i + j))
               then spec_observation env sfmData ((v # vs) ! j) k else None)"
  proof (intro allI impI)
    fix j assume j: "j < length (v # vs)"
    show "position (snd (((i, ?l) # ls) ! j)) = (v # vs) ! j \<and>
       distinct (map fst (observations (snd (((i, ?l) # ls) ! j)))) \<and>
       map_of (observations (snd (((i, ?l) # ls) ! j))) =
         (\<lambda>k. if k \<in> getViewId mp ` set (ptsCams ! (i + j))
               then spec_observation env sfmData ((v # vs) ! j) k else None)"
    proof (cases j)
      case 0
      then show ?thesis using o(2,3) by (simp cong: if_cong)
    next
      case (Suc j')
      then have "j' < length vs" using j by simp
      with ls(3) show ?thesis using Suc by (simp cong: if_cong)
    qed
  qed
  from res keys each show ?case by blast
qed

lemma createDenseSfMData_spec:
  assumes "length vertices \<le> length ptsCams"
      and "\<forall>cams\<in>set ptsCams. \<forall>c\<in>set cams. camera_resolves sfmData mp c"
  shows "\<exists>ls. createDenseSfMData env sfmData mp vertices ptsCams = Inr (sfmData\<lparr>landmarks := ls\<rparr>) \<and>
           dense_spec env sfmData mp vertices ptsCams ls"
proof -
  have "\<forall>j<length vertices. 0 + j < length ptsCams \<and>
             (\<forall>c\<in>set (ptsCams ! (0 + j)). camera_resolves sfmData mp c)"
    using assms by (auto simp: all_set_conv_all_nth)
  from dense_landmarks_spec[OF this, of env]
  show ?thesis by (auto simp: createDenseSfMData_def dense_spec_def)
qed


lemma landmark_geometry_nth:
  assumes "landmark_geometry ls' = landmark_geometry ls"
  shows "length ls' = length ls" and "map fst ls' = map fst ls"
    and "j < length ls \<Longrightarrow> position (snd (ls' ! j)) = position (snd (ls ! j))"
    and "j < length ls \<Longrightarrow> observations (snd (ls' ! j)) = observations (snd (ls ! j))"
proof -
  have "length (landmark_geometry ls') = length (landmark_geometry ls)" using assms by simp
  then show l: "length ls' = length ls" by (simp add: landmark_geometry_def)
  have "map fst (landmark_geometry ls') = map fst (landmark_geometry ls)" using assms by simp
  then show "map fst ls' = map fst ls"
    by (simp add: landmark_geometry_def case_prod_beta comp_def)
  assume j: "j < length ls"
  have "landmark_geometry ls' ! j = landmark_geometry ls ! j" using assms by simp
  then have "(fst (ls' ! j), position (snd (ls' ! j)), observations (snd (ls' ! j))) =
             (fst (ls ! j), position (snd (ls ! j)), observations (snd (ls ! j)))"
    using j l by (simp add: landmark_geometry_def case_prod_beta)
  then show "position (snd (ls' ! j)) = position (snd (ls ! j))"
    and "observations (snd (ls' ! j)) = observations (snd (ls ! j))"
    by simp_all
qed

lemma dense_spec_geometry:
  assumes "landmark_geometry ls' = landmark_geometry ls"
      and "dense_spec env sfmData mp vertices ptsCams ls"
  shows "dense_spec env sfmData mp vertices ptsCams ls'"
proof -
  have "map fst ls = [0..<length vertices]" using assms(2) by (simp add: dense_spec_def)
  then have "length (map fst ls) = length [0..<length vertices]" by (rule arg_cong)
  then have n: "length ls = length vertices" by simp
  show ?thesis
    using assms(2) n landmark_geometry_nth[OF assms(1)]
    by (simp add: dense_spec_def)
qed

lemma dense_spec_lookup:
  assumes "dense_spec env sfmData mp vertices ptsCams ls"
  shows "distinct (map fst ls)"
    and "j < length vertices \<Longrightarrow> map_of ls j = Some (snd (ls ! j))"
    and "length vertices \<le> k \<Longrightarrow> map_of ls k = None"
proof -
  have keys: "map fst ls = [0..<length vertices]" using assms by (simp add: dense_spec_def)
  then have "length (map fst ls) = length [0..<length vertices]" by (rule arg_cong)
  then have n: "length ls = length vertices" by simp
  show d: "distinct (map fst ls)" using keys by simp
  show "map_of ls j = Some (snd (ls ! j))" if j: "j < length vertices"
  proof -
    have "map fst ls ! j = [0..<length vertices] ! j" by (simp only: keys)
    then have "fst (ls ! j) = j" using j n by simp
    then have "ls ! j = (j, snd (ls ! j))" by (simp add: prod_eq_iff)
    moreover have "ls ! j \<in> set ls" using j n by simp
    ultimately have "(j, snd (ls ! j)) \<in> set ls" by simp
    then show ?thesis using d by simp
  qed
  show "map_of ls k = None" if "length vertices \<le> k"
  proof -
    have "k \<notin> set (map fst ls)" using keys that by simp
    then show ?thesis by (simp add: map_of_eq_None_iff)
  qed
qed

lemma lookup_after_filter:
  assumes "distinct (map fst xs)" and "map_of xs k = Some v"
  shows "map_of (filter P xs) k = (if P (k, v) then Some v else None)"
  using assms
proof (induction xs)
  case Nil
  then show ?case by simp
next
  case (Cons x xs)
  obtain a b where x: "x = (a, b)" by (cases x)
  show ?case
  proof (cases "a = k")
    case True
    then have absent: "k \<notin> fst ` set xs" using Cons.prems(1) x by simp
    then have "map_of xs k = None" by (simp add: map_of_eq_None_iff)
    moreover have "k \<notin> fst ` set (filter P xs)" using absent by auto
    then have "map_of (filter P xs) k = None" by (simp add: map_of_eq_None_iff)
    ultimately show ?thesis using Cons.prems(2) x True by simp
  next
    case False
    then show ?thesis using Cons x by simp
  qed
qed

lemma landmark_colors_total:
  assumes "\<forall>i\<in>set idxs. map_of ls i \<noteq> None"
  shows "\<exists>cs. landmark_colors ls idxs = Inr cs"
  using assms by (induction idxs) auto


lemma dense_point_cloud_of_mesh_spec:
  assumes "length (pts mesh) \<le> length ptsCams"
      and "\<forall>cams\<in>set ptsCams. \<forall>c\<in>set cams. camera_resolves sfmData mp c"
      and "colorizeOutput cfg \<longrightarrow>
             (\<forall>d. landmark_geometry (landmarks (colorizeTracks env d)) = landmark_geometry (landmarks d))"
  shows "\<exists>dense m' ls.
           dense_point_cloud_of_mesh env cfg sfmData mp mesh ptsCams = Inr (dense, m') \<and>
           landmarks dense = filter (\<lambda>(k, l). observations l \<noteq> []) ls \<and>
           dense_spec env sfmData mp (pts mesh) ptsCams ls"
proof -
  from createDenseSfMData_spec[OF assms(1,2), of env]
  obtain ls where ls: "createDenseSfMData env sfmData mp (pts mesh) ptsCams = Inr (sfmData\<lparr>landmarks := ls\<rparr>)"
    "dense_spec env sfmData mp (pts mesh) ptsCams ls"
    by auto
  show ?thesis
  proof (cases "colorizeOutput cfg")
    case False
    then have "dense_point_cloud_of_mesh env cfg sfmData mp mesh ptsCams =
                 Inr (removeLandmarksWithoutObservations (sfmData\<lparr>landmarks := ls\<rparr>), mesh)"
      using ls(1) by (simp add: dense_point_cloud_of_mesh_def)
    moreover have "landmarks (removeLandmarksWithoutObservations (sfmData\<lparr>landmarks := ls\<rparr>)) =
                     filter (\<lambda>(k, l). observations l \<noteq> []) ls"
      by (simp add: removeLandmarksWithoutObservations_def)
    ultimately show ?thesis using ls(2) by blast
  next
    case True
    let ?col = "colorizeTracks env (sfmData\<lparr>landmarks := ls\<rparr>)"
    have g: "landmark_geometry (landmarks ?col) = landmark_geometry ls"
      using assms(3) True by simp
    have sp: "dense_spec env sfmData mp (pts mesh) ptsCams (landmarks ?col)"
      using g ls(2) by (rule dense_spec_geometry)
    have "\<forall>i\<in>set [0..<length (pts mesh)]. map_of (landmarks ?col) i \<noteq> None"
      using dense_spec_lookup(2)[OF sp] by simp
    then obtain cs where cs: "landmark_colors (landmarks ?col) [0..<length (pts mesh)] = Inr cs"
      using landmark_colors_total by blast
    have "dense_point_cloud_of_mesh env cfg sfmData mp mesh ptsCams =
            Inr (removeLandmarksWithoutObservations ?col, mesh\<lparr>colors := cs\<rparr>)"
      using ls(1) True cs by (simp add: dense_point_cloud_of_mesh_def Let_def)
    moreover have "landmarks (removeLandmarksWithoutObservations ?col) =
                     filter (\<lambda>(k, l). observations l \<noteq> []) (landmarks ?col)"
      by (simp add: removeLandmarksWithoutObservations_def)
    ultimately show ?thesis using sp by blast
  qed
qed

lemma filtered_dense_spec:
  assumes "dense_spec env sfmData mp vertices ptsCams ls"
      and "length vertices \<le> length ptsCams"
      and "\<forall>cams\<in>set ptsCams. \<forall>c\<in>set cams. camera_resolves sfmData mp c"
      and "\<forall>cams\<in>set ptsCams. inj_on (getViewId mp) (set cams)"
      and "i < length vertices"
  shows "(ptsCams ! i = [] \<longrightarrow> map_of (filter (\<lambda>(k, l). observations l \<noteq> []) ls) i = None)
       \<and> (ptsCams ! i \<noteq> [] \<longrightarrow>
            (\<exists>l. map_of (filter (\<lambda>(k, l). observations l \<noteq> []) ls) i = Some l \<and>
                 position l = vertices ! i \<and>
                 fst ` set (observations l) = getViewId mp ` set (ptsCams ! i) \<and>
                 length (observations l) = card (set (ptsCams ! i)) \<and>
                 (\<forall>c\<in>set (ptsCams ! i).
                    map_of (observations l) (getViewId mp c) =
                      spec_observation env sfmData (vertices ! i) (getViewId mp c))))"
proof -
  let ?l = "snd (ls ! i)"
  have mem: "ptsCams ! i \<in> set ptsCams" using assms(2,5) by simp
  have r: "\<forall>c\<in>set (ptsCams ! i). camera_resolves sfmData mp c" using assms(3) mem by blast
  have inj: "inj_on (getViewId mp) (set (ptsCams ! i))" using assms(4) mem by blast
  have p: "position ?l = vertices ! i"
    and d: "distinct (map fst (observations ?l))"
    and m: "map_of (observations ?l) =
              (\<lambda>k. if k \<in> getViewId mp ` set (ptsCams ! i)
                    then spec_observation env sfmData (vertices ! i) k else None)"
    using assms(1,5) by (simp_all add: dense_spec_def)
  note oc = observations_of_cams[OF r m d]
  have look: "map_of ls i = Some ?l" using assms(1,5) by (rule dense_spec_lookup(2))
  have f: "map_of (filter (\<lambda>(k, l). observations l \<noteq> []) ls) i =
             (if observations ?l \<noteq> [] then Some ?l else None)"
    using lookup_after_filter[OF dense_spec_lookup(1)[OF assms(1)] look,
            of "\<lambda>(k, l). observations l \<noteq> []"]
    by simp
  have each: "\<forall>c\<in>set (ptsCams ! i).
                map_of (observations ?l) (getViewId mp c) =
                  spec_observation env sfmData (vertices ! i) (getViewId mp c)"
    by (simp add: m)
  show ?thesis
    using f oc(1) oc(2)[OF inj] oc(3) p each by auto
qed

text \<open>
  Claim C4. For a valid final mesh whose vertices all have a visibility entry, whose
  cameras all resolve in the scene (view, pose and intrinsic) under distinct view ids,
  and with a colorization that leaves positions and observations alone, the output
  stage succeeds and saves a dense point cloud \<open>dense\<close> such that, for every vertex
  \<open>i\<close> of the mesh:
  \<^item> if the visibility set of the vertex is empty, there is no landmark \<open>i\<close>;
  \<^item> otherwise the landmark \<open>i\<close> is at the position of the vertex, it has exactly
    one observation per camera of the visibility set, stored under the view id of the
    camera, and that observation is the re-projection of the vertex into the camera
    with the distortion applied (\<^const>\<open>spec_observation\<close>).
\<close>
theorem dense_point_cloud_of_final_mesh:
  assumes "\<not> no_valid_mesh (Some mesh)" and "ptsCams \<noteq> []"
      and "length (pts mesh) \<le> length ptsCams"
      and "\<forall>cams\<in>set ptsCams. \<forall>c\<in>set cams. camera_resolves sfmData mp c"
      and "\<forall>cams\<in>set ptsCams. inj_on (getViewId mp) (set cams)"
      and "colorizeOutput cfg \<longrightarrow>
             (\<forall>d. landmark_geometry (landmarks (colorizeTracks env d)) = landmark_geometry (landmarks d))"
  shows "\<exists>dense m'.
           generate_output env cfg sfmData mp (Some mesh) ptsCams =
             ([Log_info ''Save dense point cloud.'',
               Save_SfMData (outputDensePointCloud cfg) dense,
               Log_info ''Save obj mesh file.'',
               Save_obj (outputMesh cfg) m',
               Log_info ''Task done''],
              Inr EXIT_SUCCESS) \<and>
           (\<forall>i<length (pts mesh).
              (ptsCams ! i = [] \<longrightarrow> map_of dense i = None) \<and>
              (ptsCams ! i \<noteq> [] \<longrightarrow>
                 (\<exists>l. map_of dense i = Some l \<and>
                      position l = pts mesh ! i \<and>
                      fst ` set (observations l) = getViewId mp ` set (ptsCams ! i) \<and>
                      length (observations l) = card (set (ptsCams ! i)) \<and>
                      (\<forall>c\<in>set (ptsCams ! i).
                         map_of (observations l) (getViewId mp c) =
                           spec_observation env sfmData (pts mesh ! i) (getViewId mp c)))))"
proof -
  from dense_point_cloud_of_mesh_spec[OF assms(3,4,6)]
  obtain dense m' ls where d:
    "dense_point_cloud_of_mesh env cfg sfmData mp mesh ptsCams = Inr (dense, m')"
    "landmarks dense = filter (\<lambda>(k, l). observations l \<noteq> []) ls"
    "dense_spec env sfmData mp (pts mesh) ptsCams ls"
    by blast
  have out: "generate_output env cfg sfmData mp (Some mesh) ptsCams =
             ([Log_info ''Save dense point cloud.'',
               Save_SfMData (outputDensePointCloud cfg) (landmarks dense),
               Log_info ''Save obj mesh file.'',
               Save_obj (outputMesh cfg) m',
               Log_info ''Task done''],
              Inr EXIT_SUCCESS)"
    using assms(1,2) d(1) by (simp add: generate_output_def)
  have "\<forall>i<length (pts mesh).
              (ptsCams ! i = [] \<longrightarrow> map_of (landmarks dense) i = None) \<and>
              (ptsCams ! i \<noteq> [] \<longrightarrow>
                 (\<exists>l. map_of (landmarks dense) i = Some l \<and>
                      position l = pts mesh ! i \<and>
                      fst ` set (observations l) = getViewId mp ` set (ptsCams ! i) \<and>
                      length (observations l) = card (set (ptsCams ! i)) \<and>
                      (\<forall>c\<in>set (ptsCams ! i).
                         map_of (observations l) (getViewId mp c) =
                           spec_observation env sfmData (pts mesh ! i) (getViewId mp c))))"
    unfolding d(2) using filtered_dense_spec[OF d(3) assms(3,4,5)] by blast
  with out show ?thesis by blast
qed


lemma example_colorize_geometry:
  "landmark_geometry (landmarks (example_colorize d)) = landmark_geometry (landmarks d)"
  by (simp add: example_colorize_def landmark_geometry_def case_prod_beta comp_def)

lemma example_cameras_resolve:
  "\<forall>cams\<in>set triangle_visibility. \<forall>c\<in>set cams. camera_resolves mesh_scene example_mp c"
  "\<forall>cams\<in>set triangle_visibility. inj_on (getViewId example_mp) (set cams)"
  by (simp_all add: triangle_visibility_def camera_resolves_def mesh_scene_def example_mp_def
        cam_view_def)

lemma example_spec_observation:
  "spec_observation (example_meshing_env mesh cams) mesh_scene (0, 0, 0) 10 =
     Some \<lparr>obs_x = (100, 7), id_feat = None, scale = 0\<rparr>"
  by (simp add: spec_observation_def mesh_scene_def cam_view_def example_project_def
        example_meshing_env_sel)

theorem dense_point_cloud_of_final_mesh_witness:
  "\<exists>dense m'.
     generate_output (example_meshing_env (Some triangle) [0, 1])
       (example_meshing_cfg ''depthMaps'' ePartitioningSingleBlock eRepartitionMultiResolution False True)
       mesh_scene example_mp (Some triangle) triangle_visibility =
       ([Log_info ''Save dense point cloud.'',
         Save_SfMData ''out/dense.abc'' dense,
         Log_info ''Save obj mesh file.'',
         Save_obj ''out/mesh.obj'' m',
         Log_info ''Task done''],
        Inr EXIT_SUCCESS) \<and>
     map_of dense 1 = None \<and>
     (\<exists>l. map_of dense 0 = Some l \<and> position l = (0, 0, 0) \<and> length (observations l) = 2 \<and>
          map_of (observations l) 10 = Some \<lparr>obs_x = (100, 7), id_feat = None, scale = 0\<rparr>)"
proof -
  let ?E = "example_meshing_env (Some triangle) [0, 1]"
  let ?C = "example_meshing_cfg ''depthMaps'' ePartitioningSingleBlock eRepartitionMultiResolution False True"
  have v: "\<not> no_valid_mesh (Some triangle)" "triangle_visibility \<noteq> []"
    "length (pts triangle) \<le> length triangle_visibility"
    by (simp_all add: no_valid_mesh_def triangle_def triangle_visibility_def)
  have c: "colorizeOutput ?C \<longrightarrow>
             (\<forall>d. landmark_geometry (landmarks (colorizeTracks ?E d)) = landmark_geometry (landmarks d))"
    by (simp add: example_meshing_env_sel example_colorize_geometry)
  from dense_point_cloud_of_final_mesh[OF v example_cameras_resolve c]
  obtain dense m' where out:
    "generate_output ?E ?C mesh_scene example_mp (Some triangle) triangle_visibility =
       ([Log_info ''Save dense point cloud.'',
         Save_SfMData (outputDensePointCloud ?C) dense,
         Log_info ''Save obj mesh file.'',
         Save_obj (outputMesh ?C) m',
         Log_info ''Task done''],
        Inr EXIT_SUCCESS)"
    and each: "\<forall>i<length (pts triangle).
              (triangle_visibility ! i = [] \<longrightarrow> map_of dense i = None) \<and>
              (triangle_visibility ! i \<noteq> [] \<longrightarrow>
                 (\<exists>l. map_of dense i = Some l \<and>
                      position l = pts triangle ! i \<and>
                      fst ` set (observations l) = getViewId example_mp ` set (triangle_visibility ! i) \<and>
                      length (observations l) = card (set (triangle_visibility ! i)) \<and>
                      (\<forall>c\<in>set (triangle_visibility ! i).
                         map_of (observations l) (getViewId example_mp c) =
                           spec_observation ?E mesh_scene (pts triangle ! i) (getViewId example_mp c))))"
    by blast
  have t: "length (pts triangle) = 3" "pts triangle ! 0 = (0, 0, 0)"
    "triangle_visibility ! 0 = [0, 1]" "triangle_visibility ! 1 = []"
    by (simp_all add: triangle_def triangle_visibility_def)
  have one: "map_of dense 1 = None"
    using each[rule_format, of 1] t by simp
  have "0 < length (pts triangle)" "triangle_visibility ! 0 \<noteq> []" using t by simp_all
  with each obtain l where l: "map_of dense 0 = Some l" "position l = pts triangle ! 0"
    "length (observations l) = card (set (triangle_visibility ! 0))"
    "\<forall>c\<in>set (triangle_visibility ! 0).
               map_of (observations l) (getViewId example_mp c) =
                 spec_observation ?E mesh_scene (pts triangle ! 0) (getViewId example_mp c)"
    by blast
  have "position l = (0, 0, 0)" using l(2) t by simp
  moreover have "length (observations l) = 2" using l(3) t by simp
  moreover have "map_of (observations l) 10 = Some \<lparr>obs_x = (100, 7), id_feat = None, scale = 0\<rparr>"
  proof -
    have "0 \<in> set (triangle_visibility ! 0)" using t by simp
    with l(4) have "map_of (observations l) (getViewId example_mp 0) =
        spec_observation ?E mesh_scene (pts triangle ! 0) (getViewId example_mp 0)"
      by blast
    moreover have "getViewId example_mp 0 = 10" by (simp add: example_mp_def)
    ultimately show ?thesis using t by (simp add: example_spec_observation)
  qed
  ultimately have "\<exists>l. map_of dense 0 = Some l \<and> position l = (0, 0, 0) \<and> length (observations l) = 2 \<and>
          map_of (observations l) 10 = Some \<lparr>obs_x = (100, 7), id_feat = None, scale = 0\<rparr>"
    using l(1) by blast
  with out one show ?thesis by (simp add: example_meshing_cfg_sel)
qed

subsection \<open>The seed\<close>

text \<open>
  The driver only hands the seed on: line 296 stores it, unchanged, as the user
  parameter \<^verbatim>\<open>delaunaycut.seed\<close>. What the libraries do with it is outside the
  driver.
\<close>

lemma seed_stored_in_user_params:
  "map_of (userParams (init_mp env cfg sfmData m)) ''delaunaycut.seed'' = Some (UInt (seed cfg))"
  by (simp add: init_mp_def Let_def update_conv')

end
